theory Spec2Isabelle
  imports Complex_Main
begin

section \<open>Python float primitives\<close>

text \<open>
  The program computes with Python floats. They are modelled as \<^typ>\<open>real\<close>: rounding,
  overflow and the values inf and nan are outside the model. What is kept is every
  exception the arithmetic of the source can raise on real arguments:
  \<^item> \<open>x / y\<close> raises ZeroDivisionError when \<open>y = 0\<close>;
  \<^item> \<open>math.log(x)\<close> raises ValueError when \<open>x \<le> 0\<close>;
  \<^item> \<open>x ** y\<close> raises ZeroDivisionError for \<open>0 ** negative\<close>; for a negative base and
    a non-integral exponent Python 3 returns a complex number, which makes the next
    comparison, \<open>min\<close>, \<open>max\<close> or \<open>math.log\<close> on it raise TypeError. The model has
    no complex values: it reports \<open>ComplexResult\<close> at the power itself;
  \<^item> \<open>xs[i]\<close> raises IndexError when \<open>i\<close> is out of range.
\<close>

datatype py_error = ValueError | ZeroDivisionError | IndexError | ComplexResult

definition andthen :: "py_error + 'a \<Rightarrow> ('a \<Rightarrow> py_error + 'b) \<Rightarrow> py_error + 'b" where
  "andthen r f = (case r of Inl err \<Rightarrow> Inl err | Inr v \<Rightarrow> f v)"

definition py_div :: "real \<Rightarrow> real \<Rightarrow> py_error + real" where
  "py_div x y = (if y = 0 then Inl ZeroDivisionError else Inr (x / y))"

definition py_log :: "real \<Rightarrow> py_error + real" where
  "py_log x = (if x \<le> 0 then Inl ValueError else Inr (ln x))"

definition py_pow :: "real \<Rightarrow> real \<Rightarrow> py_error + real" where
  "py_pow x y =
     (if 0 < x then Inr (x powr y)
      else if x = 0 then
        (if y < 0 then Inl ZeroDivisionError else if y = 0 then Inr 1 else Inr 0)
      else if y = of_int \<lfloor>y\<rfloor> then Inr (power_int x \<lfloor>y\<rfloor>)
      else Inl ComplexResult)"

definition py_get :: "'a list \<Rightarrow> nat \<Rightarrow> py_error + 'a" where
  "py_get xs i = (if i < length xs then Inr (xs ! i) else Inl IndexError)"

section \<open>Data model (soilwater.py, the namedtuples and the two classes)\<close>

record SWC =
  sat :: real
  fc :: real
  pwp :: real
  psd :: real
  porosity :: real
  airentry :: real

record Texture =
  clay :: real
  sand :: real
  om :: real

text \<open>The fields of RootZone carry the prefix \<open>rz_\<close>: \<open>wc\<close>, \<open>vwc\<close>, \<open>sat\<close>, \<open>fc\<close>
  and \<open>pwp\<close> are field names of SoilLayer and SWC already.\<close>

record RootZone =
  rz_wc :: real
  rz_vwc :: real
  rz_critical :: real
  rz_sat :: real
  rz_fc :: real
  rz_pwp :: real

record ActualET =
  crop :: real
  soil :: real

record Fluxes =
  t :: real
  e :: real
  influx :: real
  outflux :: real
  netflux :: real

text \<open>
  A SoilLayer object. The attributes \<open>prev\<close> and \<open>next\<close> of the source are references to
  the neighbours in \<open>SoilWater.layers\<close>; the model keeps the list and finds the neighbours
  of layer \<open>idx\<close> at \<open>idx - 1\<close> and \<open>idx + 1\<close>, which is what \<open>SoilWater.__init__\<close> stores
  in them.
\<close>

record SoilLayer =
  thick :: real
  texture :: Texture
  vwc :: real
  wc :: real
  accthick :: real
  depth :: real
  swc :: SWC
  ksat :: real
  k :: real
  matric :: real
  gravity :: real
  fluxes :: Fluxes

definition tothead :: "SoilLayer \<Rightarrow> real" where
  "tothead self = matric self + gravity self"

definition Fluxes_zero :: Fluxes where
  "Fluxes_zero = \<lparr>t = 0, e = 0, influx = 0, outflux = 0, netflux = 0\<rparr>"

definition RootZone_zero :: RootZone where
  "RootZone_zero = \<lparr>rz_wc = 0, rz_vwc = 0, rz_critical = 0, rz_sat = 0, rz_fc = 0, rz_pwp = 0\<rparr>"

text \<open>\<open>SoilLayer.__init__\<close>: every attribute is 0.0.\<close>

definition SoilLayer_new :: SoilLayer where
  "SoilLayer_new =
     \<lparr>thick = 0, texture = \<lparr>clay = 0, sand = 0, om = 0\<rparr>, vwc = 0, wc = 0, accthick = 0,
      depth = 0,
      swc = \<lparr>sat = 0, fc = 0, pwp = 0, psd = 0, porosity = 0, airentry = 0\<rparr>,
      ksat = 0, k = 0, matric = 0, gravity = 0, fluxes = Fluxes_zero\<rparr>"

section \<open>SoilLayer.update_heads_k\<close>

text \<open>The matric suction of the first half of the method, in m, before the floor at 0.\<close>

definition matric_head :: "SoilLayer \<Rightarrow> py_error + real" where
  "matric_head self =
     (if vwc self \<ge> fc (swc self) then
        andthen (py_div ((33 - airentry (swc self)) * (vwc self - fc (swc self)))
                        (sat (swc self) - fc (swc self)))
          (\<lambda>q. Inr ((33 - q) / 10))
      else
        andthen (py_div 1 (psd (swc self))) (\<lambda>b.
        andthen (py_log (fc (swc self))) (\<lambda>lfc.
        andthen (py_pow (max 0.05 (vwc self)) (- b)) (\<lambda>p.
          Inr (exp (3.496508 + b * lfc) * p / 10)))))"

text \<open>The unsaturated hydraulic conductivity of the second half, from the matric head
  \<open>hm\<close> just stored.\<close>

definition unsat_k :: "SoilLayer \<Rightarrow> real \<Rightarrow> py_error + real" where
  "unsat_k self hm =
     andthen (py_div (vwc self) (sat (swc self))) (\<lambda>ratio.
       if hm > airentry (swc self) / 10 then
         andthen (py_div 2 (psd (swc self))) (\<lambda>q.
         andthen (py_pow ratio (3 + q)) (\<lambda>p. Inr (ksat self * p)))
       else Inr (ksat self))"

definition update_heads_k :: "SoilLayer \<Rightarrow> py_error + SoilLayer" where
  "update_heads_k self =
     andthen (matric_head self) (\<lambda>hm.
     andthen (unsat_k self (max 0 hm)) (\<lambda>knew.
       Inr (self\<lparr>matric := max 0 hm, gravity := depth self, k := knew\<rparr>)))"

section \<open>SoilLayer.initialize_layer\<close>

text \<open>Step 2a, the Saxton and Rawls regressions; \<open>s\<close> and \<open>c\<close> are fractions, \<open>omp\<close> (the
  source's \<open>om\<close>) is a percentage.\<close>

definition theta1500_of :: "real \<Rightarrow> real \<Rightarrow> real \<Rightarrow> real" where
  "theta1500_of s c omp =
     (let n1 = - 0.024 * s + 0.487 * c + 0.006 * omp;
          n2 = 0.005 * (s * omp) - 0.013 * (c * omp) + 0.068 * (s * c) + 0.031;
          theta1500t = n1 + n2
      in theta1500t + (0.14 * theta1500t - 0.02))"

definition theta33_of :: "real \<Rightarrow> real \<Rightarrow> real \<Rightarrow> real" where
  "theta33_of s c omp =
     (let n1 = - 0.251 * s + 0.195 * c + 0.011 * omp;
          n2 = 0.006 * (s * omp) - 0.027 * (c * omp) + 0.452 * (s * c) + 0.299;
          theta33t = n1 + n2
      in theta33t + (1.283 * theta33t ^ 2 - 0.374 * theta33t - 0.015))"

definition theta_s33_of :: "real \<Rightarrow> real \<Rightarrow> real \<Rightarrow> real" where
  "theta_s33_of s c omp =
     (let n1 = 0.278 * s + 0.034 * c + 0.022 * omp;
          n2 = - 0.018 * (s * omp) - 0.027 * (c * omp) - 0.584 * (s * c) + 0.078;
          theta_s33t = n1 + n2
      in theta_s33t + 0.636 * theta_s33t - 0.107)"

definition theta0_of :: "real \<Rightarrow> real \<Rightarrow> real \<Rightarrow> real" where
  "theta0_of s c omp = theta33_of s c omp + theta_s33_of s c omp - 0.097 * s + 0.043"

text \<open>Step 2c, the air-entry suction (kPa).\<close>

definition airentry_of :: "real \<Rightarrow> real \<Rightarrow> real \<Rightarrow> real" where
  "airentry_of s c awc =
     (let n1 = - 21.674 * s - 27.932 * c - 81.975 * awc + 71.121 * (s * awc);
          n2 = 8.294 * (c * awc) + 14.05 * (s * c) + 27.161;
          aet = n1 + n2
      in max 0 (aet + (0.02 * aet ^ 2 - 0.113 * aet - 0.7)))"

text \<open>Step 4, the special codes of a negative water content (\<open>v\<close> is \<open>-self.vwc\<close>).\<close>

definition special_code :: "SWC \<Rightarrow> real \<Rightarrow> real" where
  "special_code w v =
     (if 1 \<le> v \<and> v \<le> 2 then sat w - (v - 1) * (sat w - fc w)
      else if 2 < v \<and> v \<le> 3 then fc w - (v - 2) * (fc w - pwp w)
      else fc w)"

text \<open>
  \<open>initialize_layer\<close> reads and advances the class attribute \<open>SoilLayer.__accdepth\<close>,
  which all layers of the process share: the model takes its value and returns the new
  one. \<open>prevlayer\<close> is \<open>None\<close> for the first layer.
\<close>

definition initialize_layer ::
  "real \<Rightarrow> SoilLayer option \<Rightarrow> SoilLayer \<Rightarrow> py_error + (SoilLayer \<times> real)" where
  "initialize_layer accdepth prevlayer self =
     (let prevaccthick = (case prevlayer of Some p \<Rightarrow> accthick p | None \<Rightarrow> 0);
          prevthick = (case prevlayer of Some p \<Rightarrow> thick p | None \<Rightarrow> 0);
          d = 0.5 * (prevthick + thick self);
          s = sand (texture self) / 100;
          c = clay (texture self) / 100;
          theta1500 = theta1500_of s c (om (texture self));
          theta33 = theta33_of s c (om (texture self));
          theta0 = theta0_of s c (om (texture self))
      in
      andthen (py_log theta33) (\<lambda>l33.
      andthen (py_log theta1500) (\<lambda>l1500.
      andthen (py_div (ln 1500 - ln 33) (l33 - l1500)) (\<lambda>b.
      andthen (py_div 1 b) (\<lambda>psdnew.
      let awc = theta0 - theta33;
          ae = airentry_of s c awc;
          swcnew = \<lparr>sat = 2.225 * theta0 * (1 - theta0),
                    fc = 1.605 * theta33 * (1 - theta33),
                    pwp = 1.528 * theta1500 * (1 - theta1500),
                    psd = psdnew,
                    porosity = 2.225 * theta0 * (1 - theta0),
                    airentry = ae\<rparr>
      in
      andthen (py_pow awc (3 - psdnew)) (\<lambda>p.
      let vwcnew = (if vwc self < 0 then special_code swcnew (- vwc self) else vwc self);
          wcnew = (if vwc self < 0 then vwcnew * thick self * 1000 else wc self)
      in
      andthen
        (update_heads_k
           (self\<lparr>accthick := thick self + prevaccthick, depth := accdepth + d,
                 swc := swcnew, ksat := 1930 * p * 24 / 1000,
                 vwc := vwcnew, wc := wcnew\<rparr>))
        (\<lambda>l. Inr (l, accdepth + d))))))))"

section \<open>The SoilWater object\<close>

text \<open>
  The initialization payload: the dictionary that \<open>SoilWater.__init__\<close> reads from the
  JSON file, with the keys the constructor uses. A missing key (KeyError) and a value of
  the wrong JSON type are outside the model.
\<close>

record LayerIni =
  ini_thick :: real
  ini_vwc :: real
  ini_texture :: Texture

record Ini =
  ini_numintervals :: int
  ini_rootdepth :: real
  ini_has_watertable :: bool
  ini_numlayers :: int
  ini_layers :: "LayerIni list"

text \<open>
  \<open>self.layers\<close> is built with \<open>range(numlayers)\<close> elements and never resized, and
  \<open>self.numlayers\<close> is only used in \<open>range(self.numlayers)\<close> and in the bound
  \<open>i < self.numlayers - 1\<close> inside such a loop: the model has no field for it and uses
  the length of \<open>layers\<close>. \<open>pf\<close> and \<open>prz\<close> are the private proxies \<open>__pf\<close> and \<open>__prz\<close>.
\<close>

record SoilWater =
  numintervals :: int
  rootdepth :: real
  has_watertable :: bool
  layers :: "SoilLayer list"
  pf :: "Fluxes list"
  prz :: RootZone
  rootwater :: RootZone
  waterstresses :: ActualET
  netrain :: real
  aet :: ActualET

definition numlayers :: "SoilWater \<Rightarrow> nat" where
  "numlayers self = length (layers self)"

definition net_rainfall :: "real \<Rightarrow> real \<Rightarrow> real" where
  "net_rainfall rain lai = max 0.8 (0.267 * lai) * rain"

text \<open>\<open>self.layers[-1]\<close> raises IndexError on an empty list.\<close>

definition last_layer :: "SoilWater \<Rightarrow> py_error + SoilLayer" where
  "last_layer self = (if layers self = [] then Inl IndexError else Inr (last (layers self)))"

definition rooting_depth :: "SoilWater \<Rightarrow> py_error + real" where
  "rooting_depth self =
     andthen (last_layer self) (\<lambda>l. Inr (min (rootdepth self + 0.008) (accthick l)))"

text \<open>The loop of \<open>_rootzone_water\<close>, with its \<open>break\<close>; the accumulator is
  \<open>(wc, wcsat, wcfc, wcpwp)\<close>.\<close>

fun rootzone_loop ::
  "real \<Rightarrow> SoilLayer list \<Rightarrow> real \<times> real \<times> real \<times> real \<Rightarrow> real \<times> real \<times> real \<times> real" where
  "rootzone_loop rd [] acc = acc"
| "rootzone_loop rd (layer # rest) (a, asat, afc, apwp) =
     (let diff = thick layer - max 0 (accthick layer - rd) in
      if diff \<le> 0 then (a, asat, afc, apwp)
      else rootzone_loop rd rest
             (a + vwc layer * diff, asat + sat (swc layer) * diff,
              afc + fc (swc layer) * diff, apwp + pwp (swc layer) * diff))"

definition rootzone_water :: "SoilWater \<Rightarrow> py_error + RootZone" where
  "rootzone_water self =
     (case rootzone_loop (rootdepth self) (layers self) (0, 0, 0, 0) of
        (a, asat, afc, apwp) \<Rightarrow>
          andthen (py_div a (rootdepth self)) (\<lambda>v.
          andthen (py_div asat (rootdepth self)) (\<lambda>vsat.
          andthen (py_div afc (rootdepth self)) (\<lambda>vfc.
          andthen (py_div apwp (rootdepth self)) (\<lambda>vpwp.
            Inr \<lparr>rz_wc = a * 1000, rz_vwc = v, rz_critical = vpwp + 0.5 * (vsat - vpwp),
                 rz_sat = vsat, rz_fc = vfc, rz_pwp = vpwp\<rparr>)))))"

definition reduce_et :: "SoilWater \<Rightarrow> py_error + ActualET" where
  "reduce_et self =
     andthen (py_get (layers self) 0) (\<lambda>l0.
     andthen (py_div (vwc l0) (sat (swc l0))) (\<lambda>q.
     andthen (py_pow (3.6073 * q) (- 9.3172)) (\<lambda>p.
     andthen (py_div 1 (1 + p)) (\<lambda>rde.
     andthen
       (if rz_vwc (prz self) \<ge> rz_critical (prz self) then Inr 1
        else if rz_pwp (prz self) < rz_vwc (prz self)
                \<and> rz_vwc (prz self) < rz_critical (prz self) then
          py_div (rz_vwc (prz self) - rz_pwp (prz self))
                 (rz_critical (prz self) - rz_pwp (prz self))
        else Inr 0.01)
       (\<lambda>rdt. Inr \<lparr>crop = rdt, soil = rde\<rparr>)))))"

definition actual_et :: "SoilWater \<Rightarrow> real \<Rightarrow> real \<Rightarrow> ActualET" where
  "actual_et self petcrop petsoil =
     \<lparr>crop = crop (waterstresses self) * petcrop, soil = soil (waterstresses self) * petsoil\<rparr>"

text \<open>The body of \<open>_influx_from_watertable\<close> on \<open>last = self.layers[-1]\<close>.\<close>

definition watertable_influx :: "SoilLayer \<Rightarrow> py_error + real" where
  "watertable_influx l =
     andthen (py_log (ksat l)) (\<lambda>lksat.
     andthen (py_log (k l)) (\<lambda>lk.
     andthen (py_div (ksat l - k l) (lksat - lk)) (\<lambda>kmean.
     let hm = (33 - (33 - airentry (swc l))) / 10;
         hg = accthick l
     in py_div (kmean * ((hm + hg) - tothead l)) (thick l * 0.5))))"

definition influx_from_watertable :: "SoilWater \<Rightarrow> py_error + real" where
  "influx_from_watertable self = andthen (last_layer self) watertable_influx"

section \<open>SoilWater._calc_water_fluxes\<close>

text \<open>The root-density curve of pass 1, \<open>curpsi = 1.8 * cj - 0.8 * cj ** 2\<close>.\<close>

definition root_psi :: "real \<Rightarrow> real" where
  "root_psi cj = 1.8 * cj - 0.8 * cj ^ 2"

text \<open>Pass 1, one iteration of the loop, for layer \<open>idx\<close>: it returns the new \<open>prvpsi\<close>
  and the object with \<open>layers[idx]\<close> and \<open>__pf[idx]\<close> updated.\<close>

definition influx_step :: "nat \<Rightarrow> real \<Rightarrow> SoilWater \<Rightarrow> py_error + (real \<times> SoilWater)" where
  "influx_step idx prvpsi self =
     andthen (py_get (layers self) idx) (\<lambda>cur0.
     andthen (update_heads_k cur0) (\<lambda>cur.
     let prv = (if 0 < idx then Some (layers self ! (idx - 1)) else None);
         ei = (case prv of Some p \<Rightarrow> 0 | None \<Rightarrow> soil (aet self) / 1000)
     in
     andthen (py_div (accthick cur) (rootdepth self)) (\<lambda>q.
     let cj = min 1 q;
         curpsi = root_psi cj;
         ti = crop (aet self) * (curpsi - prvpsi) / 1000
     in
     andthen
       (case prv of
          Some p \<Rightarrow>
            andthen (py_log (k cur)) (\<lambda>lcur.
            andthen (py_log (k p)) (\<lambda>lprv.
            andthen (if lcur - lprv \<noteq> 0 then py_div (k cur - k p) (lcur - lprv)
                     else Inr (k cur)) (\<lambda>kmean.
            andthen (py_div (tothead cur - tothead p) (depth cur - depth p)) (\<lambda>grad.
              Inr (kmean * grad - ti)))))
        | None \<Rightarrow> Inr (min (netrain self / 1000) (ksat cur) - ei - ti))
       (\<lambda>curinflux.
     andthen (py_get (pf self) idx) (\<lambda>pfi.
       Inr (curpsi,
            self\<lparr>layers := (layers self)[idx := cur],
                 pf := (pf self)[idx := pfi\<lparr>t := ti, e := ei, influx := curinflux\<rparr>]\<rparr>))))))"

fun influx_loop :: "nat list \<Rightarrow> real \<Rightarrow> SoilWater \<Rightarrow> py_error + SoilWater" where
  "influx_loop [] prvpsi self = Inr self"
| "influx_loop (idx # idxs) prvpsi self =
     andthen (influx_step idx prvpsi self) (\<lambda>(curpsi, self'). influx_loop idxs curpsi self')"

text \<open>The bound correction of pass 2: the outflux that lets the projected water content
  land on the bound it would cross.\<close>

definition bound_outflux :: "SoilLayer \<Rightarrow> real \<Rightarrow> real \<Rightarrow> real" where
  "bound_outflux cur inflx outflx =
     (let wcm = vwc cur * thick cur;
          nextwc = inflx + wcm - outflx;
          drylmt = thick cur * 0.005;
          satlmt = thick cur * sat (swc cur)
      in if nextwc < drylmt then inflx + wcm - drylmt
         else if nextwc > satlmt then inflx + wcm - satlmt
         else outflx)"

text \<open>The outflux of layer \<open>idx\<close> before the bound correction.\<close>

definition raw_outflux :: "nat \<Rightarrow> SoilWater \<Rightarrow> py_error + real" where
  "raw_outflux idx self =
     andthen (py_get (layers self) idx) (\<lambda>cur.
       if idx + 1 < numlayers self then
         andthen (py_get (pf self) (idx + 1)) (\<lambda>pfn. Inr (influx pfn))
       else if \<not> has_watertable self then Inr (k cur)
       else influx_from_watertable self)"

text \<open>The last loop of pass 2: \<open>cummfluxes[idx][field] += __pf[idx][field] / numintervals\<close>
  for the five fields in the order of \<open>Fluxes._fields\<close>.\<close>

definition add_fluxes :: "int \<Rightarrow> Fluxes \<Rightarrow> Fluxes \<Rightarrow> py_error + Fluxes" where
  "add_fluxes n cf pfi =
     andthen (py_div (t pfi) (of_int n)) (\<lambda>nt.
     andthen (py_div (e pfi) (of_int n)) (\<lambda>ne.
     andthen (py_div (influx pfi) (of_int n)) (\<lambda>ni.
     andthen (py_div (outflux pfi) (of_int n)) (\<lambda>no.
     andthen (py_div (netflux pfi) (of_int n)) (\<lambda>nn.
       Inr \<lparr>t = t cf + nt, e = e cf + ne, influx = influx cf + ni,
            outflux = outflux cf + no, netflux = netflux cf + nn\<rparr>)))))"

text \<open>Pass 2, one iteration of the loop, for layer \<open>idx\<close>, on the pair of
  \<open>cummfluxes\<close> and the object.\<close>

definition netflux_step ::
  "nat \<Rightarrow> Fluxes list \<times> SoilWater \<Rightarrow> py_error + (Fluxes list \<times> SoilWater)" where
  "netflux_step idx cs =
     (case cs of (cummfluxes, self) \<Rightarrow>
     andthen (py_get (layers self) idx) (\<lambda>cur.
     andthen (py_get (pf self) idx) (\<lambda>pfi.
     andthen (raw_outflux idx self) (\<lambda>out0.
     let out = bound_outflux cur (influx pfi) out0;
         pf1 = (if idx + 1 < numlayers self
                then (pf self)[idx + 1 := (pf self ! (idx + 1))\<lparr>influx := out\<rparr>]
                else pf self);
         pfnew = pfi\<lparr>outflux := out, netflux := influx pfi - out\<rparr>
     in
     andthen (py_div (netflux pfnew) (of_int (numintervals self))) (\<lambda>dwc.
     andthen (py_div (vwc cur * thick cur + dwc) (thick cur)) (\<lambda>v.
     let vwcnew = max 0.005 (min (sat (swc cur)) v);
         curnew = cur\<lparr>vwc := vwcnew, wc := vwcnew * thick cur * 1000\<rparr>
     in
     andthen (py_get cummfluxes idx) (\<lambda>cf.
     andthen (add_fluxes (numintervals self) cf pfnew) (\<lambda>cfnew.
       Inr (cummfluxes[idx := cfnew],
            self\<lparr>layers := (layers self)[idx := curnew],
                 pf := pf1[idx := pfnew]\<rparr>)))))))))"

fun netflux_loop ::
  "nat list \<Rightarrow> Fluxes list \<times> SoilWater \<Rightarrow> py_error + (Fluxes list \<times> SoilWater)" where
  "netflux_loop [] cs = Inr cs"
| "netflux_loop (idx # idxs) cs = andthen (netflux_step idx cs) (netflux_loop idxs)"

definition calc_water_fluxes ::
  "Fluxes list \<Rightarrow> SoilWater \<Rightarrow> real \<Rightarrow> real \<Rightarrow> py_error + (Fluxes list \<times> SoilWater)" where
  "calc_water_fluxes cummfluxes self petcrop petsoil =
     andthen (rootzone_water self) (\<lambda>rz.
     andthen (reduce_et (self\<lparr>prz := rz\<rparr>)) (\<lambda>ws.
     let self1 = self\<lparr>prz := rz, waterstresses := ws\<rparr>;
         self2 = self1\<lparr>aet := actual_et self1 petcrop petsoil\<rparr>
     in
     andthen (influx_loop [0..<numlayers self2] 0 self2) (\<lambda>self3.
       netflux_loop [0..<numlayers self3] (cummfluxes, self3))))"

section \<open>SoilWater.daily_water_balance\<close>

fun subinterval_loop ::
  "nat \<Rightarrow> Fluxes list \<times> SoilWater \<Rightarrow> real \<Rightarrow> real \<Rightarrow> py_error + (Fluxes list \<times> SoilWater)" where
  "subinterval_loop 0 cs petcrop petsoil = Inr cs"
| "subinterval_loop (Suc n) cs petcrop petsoil =
     andthen (calc_water_fluxes (fst cs) (snd cs) petcrop petsoil)
       (\<lambda>cs'. subinterval_loop n cs' petcrop petsoil)"

text \<open>The final loop stores \<open>cummfluxes[i]\<close> in \<open>layers[i].fluxes\<close>; both lists have
  \<open>numlayers\<close> elements.\<close>

definition daily_water_balance ::
  "SoilWater \<Rightarrow> real \<Rightarrow> real \<Rightarrow> real \<Rightarrow> real \<Rightarrow> py_error + SoilWater" where
  "daily_water_balance self rain lai petcrop petsoil =
     andthen (rooting_depth (self\<lparr>netrain := net_rainfall rain lai\<rparr>)) (\<lambda>rd.
     let self1 = self\<lparr>netrain := net_rainfall rain lai, rootdepth := rd\<rparr> in
     andthen (subinterval_loop (nat (numintervals self1))
                (replicate (numlayers self1) Fluxes_zero, self1) petcrop petsoil)
       (\<lambda>(cummfluxes, self2).
          Inr (self2\<lparr>rootwater := prz self2,
                     layers := map (\<lambda>(layer, cf). layer\<lparr>fluxes := cf\<rparr>)
                                   (zip (layers self2) cummfluxes)\<rparr>)))"

section \<open>SoilWater.__init__\<close>

text \<open>The first loop copies \<open>thick\<close>, \<open>vwc\<close> and \<open>texture\<close> of record \<open>i\<close> into layer
  \<open>i\<close>, for the indices of \<open>self.layers\<close>.\<close>

definition read_layer :: "LayerIni \<Rightarrow> SoilLayer" where
  "read_layer r =
     SoilLayer_new\<lparr>thick := ini_thick r, vwc := ini_vwc r,
                   wc := ini_vwc r * ini_thick r * 1000, texture := ini_texture r\<rparr>"

fun read_layers :: "LayerIni list \<Rightarrow> nat list \<Rightarrow> py_error + SoilLayer list" where
  "read_layers recs [] = Inr []"
| "read_layers recs (i # idxs) =
     andthen (py_get recs i) (\<lambda>r.
     andthen (read_layers recs idxs) (\<lambda>ls. Inr (read_layer r # ls)))"

text \<open>The second loop initializes the layers from the top; \<open>prv\<close> is the layer above,
  already initialized.\<close>

fun init_layers ::
  "real \<Rightarrow> SoilLayer option \<Rightarrow> SoilLayer list \<Rightarrow> py_error + (SoilLayer list \<times> real)" where
  "init_layers accdepth prv [] = Inr ([], accdepth)"
| "init_layers accdepth prv (l # ls) =
     andthen (initialize_layer accdepth prv l) (\<lambda>(lnew, acc1).
     andthen (init_layers acc1 (Some lnew) ls) (\<lambda>(lsnew, acc2). Inr (lnew # lsnew, acc2)))"

text \<open>The constructor, on the value of \<open>SoilLayer.__accdepth\<close> before the call; it returns
  the object and the new value of that class attribute.\<close>

definition SoilWater_init :: "real \<Rightarrow> Ini \<Rightarrow> py_error + (SoilWater \<times> real)" where
  "SoilWater_init accdepth ini =
     andthen (read_layers (ini_layers ini) [0..<nat (ini_numlayers ini)]) (\<lambda>ls0.
     andthen (init_layers accdepth None ls0) (\<lambda>(ls, acc1).
     let self0 = \<lparr>numintervals = ini_numintervals ini, rootdepth = ini_rootdepth ini,
                  has_watertable = ini_has_watertable ini, layers = ls,
                  pf = replicate (length ls) Fluxes_zero, prz = RootZone_zero,
                  rootwater = RootZone_zero, waterstresses = \<lparr>crop = 0, soil = 0\<rparr>,
                  netrain = 0, aet = \<lparr>crop = 0, soil = 0\<rparr>\<rparr>
     in
     andthen (rootzone_water self0) (\<lambda>rz.
     andthen (reduce_et (self0\<lparr>prz := rz\<rparr>)) (\<lambda>ws.
       Inr (self0\<lparr>prz := rz, waterstresses := ws\<rparr>, acc1)))))"

text \<open>\<open>Facade.run\<close>: one daily step per day, on the day's \<open>(rain, lai, petcrop, petsoil)\<close>.\<close>

fun run_days :: "SoilWater \<Rightarrow> (real \<times> real \<times> real \<times> real) list \<Rightarrow> py_error + SoilWater" where
  "run_days self [] = Inr self"
| "run_days self ((rain, lai, petcrop, petsoil) # days) =
     andthen (daily_water_balance self rain lai petcrop petsoil) (\<lambda>self'. run_days self' days)"

section \<open>What no step of the simulation changes in a layer\<close>

text \<open>The layer with its dynamic attributes (water content, heads, conductivity and
  reported fluxes) blanked: thickness, texture, cumulative thickness, depth, soil water
  characteristics and saturated conductivity remain.\<close>

definition static_part :: "SoilLayer \<Rightarrow> SoilLayer" where
  "static_part l =
     l\<lparr>vwc := 0, wc := 0, matric := 0, gravity := 0, k := 0, fluxes := Fluxes_zero\<rparr>"

section \<open>States on which the flux computation is defined\<close>

text \<open>
  A layer on which \<open>update_heads_k\<close>, the logarithms of pass 1 and the divisions of
  pass 2 are defined: positive water content, saturation and saturated conductivity,
  a pore-size index and a thickness other than zero, and saturation different from field
  capacity (the divisor of the matric head above field capacity).
\<close>

definition good_layer :: "SoilLayer \<Rightarrow> bool" where
  "good_layer l \<longleftrightarrow>
     0 < vwc l \<and> 0 < sat (swc l) \<and> psd (swc l) \<noteq> 0 \<and> sat (swc l) \<noteq> fc (swc l)
     \<and> 0 < ksat l \<and> thick l \<noteq> 0"

text \<open>An object without a water table on which a daily step is defined.\<close>

definition ready :: "SoilWater \<Rightarrow> bool" where
  "ready self \<longleftrightarrow>
     layers self \<noteq> [] \<and> length (pf self) = length (layers self)
     \<and> 0 < rootdepth self \<and> 0 < accthick (last (layers self))
     \<and> 0 < numintervals self \<and> \<not> has_watertable self
     \<and> list_all good_layer (layers self)
     \<and> distinct_adj (map depth (layers self))"

section \<open>Payloads on which the constructor is defined\<close>

text \<open>
  A layer as the first loop of the constructor leaves it, whose texture and water content
  let \<open>initialize_layer\<close> return: both logarithms of step 2b have a positive argument and
  differ, the available water capacity \<open>theta0 - theta33\<close> is positive, saturation is
  positive and differs from field capacity, and the water content (after the special
  codes) is positive. The thickness plays no part.
\<close>

definition initializable :: "SoilLayer \<Rightarrow> bool" where
  "initializable self \<longleftrightarrow>
     (let s = sand (texture self) / 100;
          c = clay (texture self) / 100;
          theta1500 = theta1500_of s c (om (texture self));
          theta33 = theta33_of s c (om (texture self));
          theta0 = theta0_of s c (om (texture self));
          w = \<lparr>sat = 2.225 * theta0 * (1 - theta0), fc = 1.605 * theta33 * (1 - theta33),
               pwp = 1.528 * theta1500 * (1 - theta1500), psd = 0,
               porosity = 2.225 * theta0 * (1 - theta0), airentry = 0\<rparr>
      in 0 < theta1500 \<and> 0 < theta33 \<and> theta33 \<noteq> theta1500 \<and> theta33 < theta0
         \<and> 0 < sat w \<and> sat w \<noteq> fc w
         \<and> 0 < (if vwc self < 0 then special_code w (- vwc self) else vwc self))"

section \<open>Functions affine in each of three arguments\<close>


section \<open>Example payloads\<close>

text \<open>A loam of 30 % clay, 40 % sand and 2 % organic matter, and a silt with 12.2 %
  organic matter and neither clay nor sand.\<close>

definition loam :: Texture where
  "loam = \<lparr>clay = 30, sand = 40, om = 2\<rparr>"

definition organic_silt :: Texture where
  "organic_silt = \<lparr>clay = 0, sand = 0, om = 12.2\<rparr>"

text \<open>Two loam layers of 0.3 m and 0.7 m, four sub-intervals a day, no water table; the
  second layer starts halfway between saturation and field capacity.\<close>

definition ini_example :: Ini where
  "ini_example =
     \<lparr>ini_numintervals = 4, ini_rootdepth = 0.2, ini_has_watertable = False,
      ini_numlayers = 2,
      ini_layers = [\<lparr>ini_thick = 0.3, ini_vwc = 0.25, ini_texture = loam\<rparr>,
                    \<lparr>ini_thick = 0.7, ini_vwc = - 1.5, ini_texture = loam\<rparr>]\<rparr>"

text \<open>One saturated loam layer (code \<open>-1\<close>) above a water table.\<close>

definition ini_watertable :: Ini where
  "ini_watertable =
     \<lparr>ini_numintervals = 4, ini_rootdepth = 0.2, ini_has_watertable = True,
      ini_numlayers = 1,
      ini_layers = [\<lparr>ini_thick = 1, ini_vwc = - 1, ini_texture = loam\<rparr>]\<rparr>"

text \<open>One declared layer, two layer records, and a thickness of zero.\<close>

definition ini_malformed :: Ini where
  "ini_malformed =
     \<lparr>ini_numintervals = 4, ini_rootdepth = 0.2, ini_has_watertable = False,
      ini_numlayers = 1,
      ini_layers = [\<lparr>ini_thick = 0, ini_vwc = 0.25, ini_texture = loam\<rparr>,
                    \<lparr>ini_thick = 0.7, ini_vwc = 0.25, ini_texture = loam\<rparr>]\<rparr>"

text \<open>A root depth of 2 m in a profile of 1 m.\<close>

definition ini_deep_root :: Ini where
  "ini_deep_root =
     \<lparr>ini_numintervals = 1, ini_rootdepth = 2, ini_has_watertable = False,
      ini_numlayers = 1,
      ini_layers = [\<lparr>ini_thick = 1, ini_vwc = 0.25, ini_texture = loam\<rparr>]\<rparr>"

text \<open>One layer of the organic silt.\<close>

definition ini_organic :: Ini where
  "ini_organic =
     \<lparr>ini_numintervals = 1, ini_rootdepth = 0.2, ini_has_watertable = False,
      ini_numlayers = 1,
      ini_layers = [\<lparr>ini_thick = 1, ini_vwc = 0.3, ini_texture = organic_silt\<rparr>]\<rparr>"

text \<open>The objects the constructor builds from these payloads (with the class attribute
  \<open>SoilLayer.__accdepth\<close> at its initial 0.0), and the result of one sub-interval on
  them with a potential transpiration of 3 mm and a potential evaporation of 2 mm.\<close>

definition example_model :: SoilWater where
  "example_model = fst (projr (SoilWater_init 0 ini_example))"

definition example_step :: "Fluxes list \<times> SoilWater" where
  "example_step = projr (calc_water_fluxes [Fluxes_zero, Fluxes_zero] example_model 3 2)"

definition organic_model :: SoilWater where
  "organic_model = fst (projr (SoilWater_init 0 ini_organic))"

definition organic_step :: "Fluxes list \<times> SoilWater" where
  "organic_step = projr (calc_water_fluxes [Fluxes_zero] organic_model 3 2)"

text \<open>The top layer of the example object, and the result of the head and conductivity
  update on it.\<close>

definition example_layer :: SoilLayer where
  "example_layer = layers example_model ! 0"

definition example_updated :: SoilLayer where
  "example_updated = projr (update_heads_k example_layer)"

text \<open>The result of \<open>initialize_layer\<close> on a first layer of loam with the water content
  code \<open>-1.5\<close>.\<close>

definition example_coded :: "SoilLayer \<times> real" where
  "example_coded =
     projr (initialize_layer 0 None
              (read_layer \<lparr>ini_thick = 0.7, ini_vwc = - 1.5, ini_texture = loam\<rparr>))"

text \<open>Two days on the example object: 10 mm of rain and none, with a leaf area index of
  2, a potential transpiration of 3 mm and a potential evaporation of 2 mm.\<close>

definition example_day1 :: SoilWater where
  "example_day1 = projr (run_days example_model [(10, 2, 3, 2)])"

definition example_day2 :: SoilWater where
  "example_day2 = projr (daily_water_balance example_day1 0 2 3 2)"

text \<open>The object with the deep root, and its first day.\<close>

definition deep_model :: SoilWater where
  "deep_model = fst (projr (SoilWater_init 0 ini_deep_root))"

definition deep_day :: SoilWater where
  "deep_day = projr (daily_water_balance deep_model 10 2 3 2)"

text \<open>Three declared layers with two layer records.\<close>

definition ini_missing_record :: Ini where
  "ini_missing_record = ini_example\<lparr>ini_numlayers := 3\<rparr>"

text \<open>The objects built from the malformed payload and from the payload with a water
  table.\<close>

definition malformed_model :: SoilWater where
  "malformed_model = fst (projr (SoilWater_init 0 ini_malformed))"

definition watertable_model :: SoilWater where
  "watertable_model = fst (projr (SoilWater_init 0 ini_watertable))"



section \<open>Basic facts about the primitives\<close>

lemma andthen_Inr [simp]: "andthen (Inr v) f = f v"
  by (simp add: andthen_def)

lemma andthen_Inl [simp]: "andthen (Inl err) f = Inl err"
  by (simp add: andthen_def)

lemma andthen_eq_Inr: "andthen r f = Inr y \<longleftrightarrow> (\<exists>v. r = Inr v \<and> f v = Inr y)"
  by (cases r) auto

lemma ex_Inr_iff: "(\<exists>y. r = Inr y) \<longleftrightarrow> \<not> isl r"
  by (cases r) auto

lemma py_div_Inr [simp]: "y \<noteq> 0 \<Longrightarrow> py_div x y = Inr (x / y)"
  by (simp add: py_div_def)

lemma py_div_zero [simp]: "py_div x 0 = Inl ZeroDivisionError"
  by (simp add: py_div_def)

lemma py_div_eq_Inr: "py_div x y = Inr q \<longleftrightarrow> y \<noteq> 0 \<and> q = x / y"
  by (auto simp: py_div_def)

lemma py_log_Inr [simp]: "0 < x \<Longrightarrow> py_log x = Inr (ln x)"
  by (simp add: py_log_def)

lemma py_log_eq_Inr: "py_log x = Inr q \<longleftrightarrow> 0 < x \<and> q = ln x"
  by (auto simp: py_log_def)

lemma py_pow_Inr [simp]: "0 < x \<Longrightarrow> py_pow x y = Inr (x powr y)"
  by (simp add: py_pow_def)

lemma py_get_Inr [simp]: "i < length xs \<Longrightarrow> py_get xs i = Inr (xs ! i)"
  by (simp add: py_get_def)

lemma py_get_eq_Inr: "py_get xs i = Inr x \<longleftrightarrow> i < length xs \<and> x = xs ! i"
  by (auto simp: py_get_def)

section \<open>The head and conductivity update\<close>

lemma matric_head_reads:
  "vwc a = vwc b \<Longrightarrow> swc a = swc b \<Longrightarrow> matric_head a = matric_head b"
  by (simp add: matric_head_def)

lemma unsat_k_reads:
  "vwc a = vwc b \<Longrightarrow> swc a = swc b \<Longrightarrow> ksat a = ksat b \<Longrightarrow> unsat_k a hm = unsat_k b hm"
  by (simp add: unsat_k_def cong del: if_weak_cong)

lemma update_heads_k_frame:
  "update_heads_k self = Inr l \<Longrightarrow>
   l = self\<lparr>matric := matric l, gravity := gravity l, k := k l\<rparr>"
  by (auto simp: update_heads_k_def andthen_eq_Inr)

lemma update_heads_k_reads:
  assumes "vwc a = vwc b" "swc a = swc b" "depth a = depth b" "ksat a = ksat b"
    and "update_heads_k a = Inr a'"
  shows "update_heads_k b = Inr (b\<lparr>matric := matric a', gravity := gravity a', k := k a'\<rparr>)"
  using assms(5) matric_head_reads [OF assms(1,2)] unsat_k_reads [OF assms(1,2,4)] assms(3)
  by (auto simp: update_heads_k_def andthen_eq_Inr)

lemma matric_head_returns:
  assumes "0 < vwc self" "psd (swc self) \<noteq> 0" "sat (swc self) \<noteq> fc (swc self)"
  shows "\<exists>hm. matric_head self = Inr hm"
  using assms by (auto simp: matric_head_def ex_Inr_iff)

lemma unsat_k_returns:
  assumes "0 < vwc self" "0 < sat (swc self)" "psd (swc self) \<noteq> 0"
  shows "\<exists>kn. unsat_k self hm = Inr kn"
  using assms by (auto simp: unsat_k_def ex_Inr_iff)

lemma unsat_k_value:
  assumes "unsat_k self hm = Inr kn" "0 < vwc self" "0 < sat (swc self)"
  shows "kn = ksat self
       \<or> kn = ksat self * (vwc self / sat (swc self)) powr (3 + 2 / psd (swc self))"
  using assms
  by (auto simp: unsat_k_def andthen_eq_Inr py_div_eq_Inr split: if_splits)

lemma unsat_k_pos:
  assumes "unsat_k self hm = Inr kn" "0 < vwc self" "0 < sat (swc self)" "0 < ksat self"
  shows "0 < kn"
proof -
  have "0 < (vwc self / sat (swc self)) powr (3 + 2 / psd (swc self))"
    using assms(2,3) by simp
  then have "0 < ksat self * (vwc self / sat (swc self)) powr (3 + 2 / psd (swc self))"
    using assms(4) by simp
  with unsat_k_value [OF assms(1-3)] assms(4) show ?thesis by auto
qed

lemma update_heads_k_returns:
  assumes "0 < vwc self" "0 < sat (swc self)" "psd (swc self) \<noteq> 0"
    and "sat (swc self) \<noteq> fc (swc self)"
  shows "\<exists>l. update_heads_k self = Inr l"
proof -
  obtain hm where "matric_head self = Inr hm"
    using matric_head_returns assms by blast
  moreover obtain kn where "unsat_k self (max 0 hm) = Inr kn"
    using unsat_k_returns assms by blast
  ultimately show ?thesis by (simp add: update_heads_k_def)
qed

lemma update_heads_k_pos:
  assumes "update_heads_k self = Inr l" "0 < vwc self" "0 < sat (swc self)" "0 < ksat self"
  shows "0 < k l"
proof -
  obtain hm where "unsat_k self hm = Inr (k l)"
    using assms(1) by (auto simp: update_heads_k_def andthen_eq_Inr)
  then show ?thesis using unsat_k_pos assms by blast
qed

section \<open>Pass 1 of the flux computation\<close>

lemma static_part_fields:
  "static_part a = static_part b \<Longrightarrow>
   thick a = thick b \<and> texture a = texture b \<and> accthick a = accthick b \<and> depth a = depth b
   \<and> swc a = swc b \<and> ksat a = ksat b"
  by (cases a, cases b) (simp add: static_part_def)

lemma static_part_update_heads_k:
  "update_heads_k self = Inr l \<Longrightarrow> static_part l = static_part self \<and> vwc l = vwc self \<and> wc l = wc self"
  by (auto simp: update_heads_k_def andthen_eq_Inr static_part_def)

lemma map_update_same:
  "i < length xs \<Longrightarrow> f x = f (xs ! i) \<Longrightarrow> map f (xs[i := x]) = map f xs"
  by (simp add: map_update list_update_same_conv)

lemma influx_step_D:
  assumes "influx_step idx p m = Inr (q, m')"
  shows "\<exists>cur ei ci.
           idx < length (layers m) \<and> idx < length (pf m)
         \<and> update_heads_k (layers m ! idx) = Inr cur
         \<and> rootdepth m \<noteq> 0
         \<and> q = root_psi (min 1 (accthick cur / rootdepth m))
         \<and> m' = m\<lparr>layers := (layers m)[idx := cur],
                   pf := (pf m)[idx := (pf m ! idx)\<lparr>t := crop (aet m) * (q - p) / 1000,
                                                  e := ei, influx := ci\<rparr>]\<rparr>"
  using assms
  by (auto simp: influx_step_def andthen_eq_Inr py_get_eq_Inr py_div_eq_Inr Let_def)

lemma influx_step_frame:
  assumes "influx_step idx p m = Inr (q, m')"
  shows "aet m' = aet m" "rootdepth m' = rootdepth m" "numintervals m' = numintervals m"
    "has_watertable m' = has_watertable m" "netrain m' = netrain m" "prz m' = prz m"
    "waterstresses m' = waterstresses m" "rootwater m' = rootwater m"
    "length (layers m') = length (layers m)" "length (pf m') = length (pf m)"
    "map static_part (layers m') = map static_part (layers m)"
    "map vwc (layers m') = map vwc (layers m)"
    "j \<noteq> idx \<Longrightarrow> pf m' ! j = pf m ! j" "j \<noteq> idx \<Longrightarrow> layers m' ! j = layers m ! j"
proof -
  from influx_step_D [OF assms] obtain cur ei ci where
    i: "idx < length (layers m)" and u: "update_heads_k (layers m ! idx) = Inr cur"
    and m': "m' = m\<lparr>layers := (layers m)[idx := cur],
                   pf := (pf m)[idx := (pf m ! idx)\<lparr>t := crop (aet m) * (q - p) / 1000,
                                                  e := ei, influx := ci\<rparr>]\<rparr>"
    by blast
  note sp = static_part_update_heads_k [OF u]
  show "aet m' = aet m" "rootdepth m' = rootdepth m" "numintervals m' = numintervals m"
    "has_watertable m' = has_watertable m" "netrain m' = netrain m" "prz m' = prz m"
    "waterstresses m' = waterstresses m" "rootwater m' = rootwater m"
    "length (layers m') = length (layers m)" "length (pf m') = length (pf m)"
    by (simp_all add: m')
  show "map static_part (layers m') = map static_part (layers m)"
    using i sp by (simp add: m' map_update_same)
  show "map vwc (layers m') = map vwc (layers m)"
    using i sp by (simp add: m' map_update_same)
  show "j \<noteq> idx \<Longrightarrow> pf m' ! j = pf m ! j" "j \<noteq> idx \<Longrightarrow> layers m' ! j = layers m ! j"
    by (simp_all add: m')
qed

lemma influx_step_t:
  assumes "influx_step idx p m = Inr (q, m')"
  shows "t (pf m' ! idx) = crop (aet m) * (q - p) / 1000"
    and "q = root_psi (min 1 (accthick (layers m ! idx) / rootdepth m))"
proof -
  from influx_step_D [OF assms] obtain cur ei ci where
    i: "idx < length (pf m)" and u: "update_heads_k (layers m ! idx) = Inr cur"
    and q: "q = root_psi (min 1 (accthick cur / rootdepth m))"
    and m': "m' = m\<lparr>layers := (layers m)[idx := cur],
                   pf := (pf m)[idx := (pf m ! idx)\<lparr>t := crop (aet m) * (q - p) / 1000,
                                                  e := ei, influx := ci\<rparr>]\<rparr>"
    by blast
  show "t (pf m' ! idx) = crop (aet m) * (q - p) / 1000"
    using i by (simp add: m')
  have "accthick cur = accthick (layers m ! idx)"
    using static_part_update_heads_k [OF u] static_part_fields by blast
  then show "q = root_psi (min 1 (accthick (layers m ! idx) / rootdepth m))"
    using q by simp
qed

lemma influx_loop_frame:
  assumes "influx_loop idxs p m = Inr m'"
  shows "aet m' = aet m \<and> rootdepth m' = rootdepth m \<and> numintervals m' = numintervals m
    \<and> has_watertable m' = has_watertable m \<and> netrain m' = netrain m \<and> prz m' = prz m
    \<and> waterstresses m' = waterstresses m \<and> rootwater m' = rootwater m
    \<and> length (layers m') = length (layers m) \<and> length (pf m') = length (pf m)
    \<and> map static_part (layers m') = map static_part (layers m)
    \<and> map vwc (layers m') = map vwc (layers m)
    \<and> (j \<notin> set idxs \<longrightarrow> pf m' ! j = pf m ! j \<and> layers m' ! j = layers m ! j)
    \<and> (j \<in> set idxs \<longrightarrow> j < length (layers m) \<and> j < length (pf m))"
  using assms
proof (induction idxs arbitrary: p m)
  case Nil
  then show ?case by simp
next
  case (Cons idx idxs)
  from Cons.prems obtain q m1 where
    s: "influx_step idx p m = Inr (q, m1)" and r: "influx_loop idxs q m1 = Inr m'"
    by (auto simp: andthen_eq_Inr)
  from influx_step_D [OF s] have "idx < length (layers m) \<and> idx < length (pf m)"
    by blast
  then show ?case
    using Cons.IH [OF r] influx_step_frame [OF s] by auto
qed


lemma root_psi_le_1: "c \<le> 1 \<Longrightarrow> root_psi c \<le> 1"
proof -
  assume c: "c \<le> 1"
  have "0 \<le> (1 - c) * (1 - 0.8 * c)"
    using c by (intro mult_nonneg_nonneg) simp_all
  moreover have "(1 - c) * (1 - 0.8 * c) = 1 - root_psi c"
    by (simp add: root_psi_def power2_eq_square field_simps)
  ultimately show ?thesis by simp
qed

lemma influx_loop_t_sum:
  assumes "influx_loop idxs p m = Inr m'" "distinct idxs" "p \<le> 1"
  shows "\<exists>q. q \<le> 1 \<and> (\<Sum>j\<leftarrow>idxs. t (pf m' ! j)) = crop (aet m) * (q - p) / 1000"
  using assms
proof (induction idxs arbitrary: p m)
  case Nil
  then show ?case by (intro exI [of _ p]) simp
next
  case (Cons idx idxs)
  from Cons.prems(1) obtain q1 m1 where
    s: "influx_step idx p m = Inr (q1, m1)" and r: "influx_loop idxs q1 m1 = Inr m'"
    by (auto simp: andthen_eq_Inr)
  have q1: "q1 \<le> 1"
    using influx_step_t(2) [OF s] by (simp add: root_psi_le_1)
  from Cons.IH [OF r _ q1] Cons.prems(2) obtain q where
    q: "q \<le> 1" and sm: "(\<Sum>j\<leftarrow>idxs. t (pf m' ! j)) = crop (aet m1) * (q - q1) / 1000"
    by auto
  have "idx \<notin> set idxs" using Cons.prems(2) by simp
  then have "pf m' ! idx = pf m1 ! idx"
    using influx_loop_frame [OF r] by blast
  then have ti: "t (pf m' ! idx) = crop (aet m) * (q1 - p) / 1000"
    using influx_step_t(1) [OF s] by simp
  have "aet m1 = aet m" using influx_step_frame(1) [OF s] .
  with sm ti have "(\<Sum>j\<leftarrow>idx # idxs. t (pf m' ! j)) = crop (aet m) * (q - p) / 1000"
    by (simp add: algebra_simps)
  with q show ?case by blast
qed

lemma influx_loop_t_each:
  assumes "influx_loop [i0..<n] p m = Inr m'" "i0 \<le> i" "i < n"
  shows "t (pf m' ! i) =
           crop (aet m) *
             (root_psi (min 1 (accthick (layers m ! i) / rootdepth m))
              - (if i = i0 then p
                 else root_psi (min 1 (accthick (layers m ! (i - 1)) / rootdepth m)))) / 1000"
  using assms
proof (induction "n - i0" arbitrary: i0 p m)
  case 0
  then show ?case by simp
next
  case (Suc d)
  then have lt: "i0 < n" by simp
  with Suc.prems(1) obtain q1 m1 where
    s: "influx_step i0 p m = Inr (q1, m1)" and r: "influx_loop [Suc i0..<n] q1 m1 = Inr m'"
    by (auto simp: upt_conv_Cons andthen_eq_Inr)
  note f = influx_step_frame [OF s]
  have acc: "accthick (layers m1 ! j) = accthick (layers m ! j)" if "j < length (layers m)" for j
  proof -
    have "static_part (layers m1 ! j) = static_part (layers m ! j)"
      using f(11) f(9) that by (metis nth_map)
    then show ?thesis using static_part_fields by blast
  qed
  show ?case
  proof (cases "i = i0")
    case True
    have "i0 \<notin> set [Suc i0..<n]" by simp
    then have "pf m' ! i0 = pf m1 ! i0" using influx_loop_frame [OF r] by blast
    then show ?thesis using influx_step_t [OF s] True by simp
  next
    case False
    then have le: "Suc i0 \<le> i" using Suc.prems(2) by simp
    have d: "d = n - Suc i0" using Suc.hyps(2) by simp
    have "i \<in> set [Suc i0..<n]" using le Suc.prems(3) by simp
    then have il: "i < length (layers m)"
      using influx_loop_frame [OF r, of i] f(9) by simp
    have i0l: "i0 < length (layers m)" using influx_step_D [OF s] by blast
    have il1: "i - 1 < length (layers m)" using il by simp
    from Suc.hyps(1) [OF d r le Suc.prems(3)]
    have "t (pf m' ! i) =
           crop (aet m) *
             (root_psi (min 1 (accthick (layers m ! i) / rootdepth m))
              - (if i = Suc i0 then q1
                 else root_psi (min 1 (accthick (layers m ! (i - 1)) / rootdepth m)))) / 1000"
      using f(1,2) acc [OF il] acc [OF il1] by simp
    moreover have "i = Suc i0 \<Longrightarrow> q1 = root_psi (min 1 (accthick (layers m ! (i - 1)) / rootdepth m))"
      using influx_step_t(2) [OF s] by simp
    ultimately show ?thesis using False by auto
  qed
qed

section \<open>Pass 2 of the flux computation\<close>

lemma netflux_step_D:
  assumes "netflux_step idx (cf, m) = Inr (cf', m')"
  shows "\<exists>out0 v cfn.
           idx < length (layers m) \<and> idx < length (pf m) \<and> idx < length cf
         \<and> raw_outflux idx m = Inr out0
         \<and> numintervals m \<noteq> 0 \<and> thick (layers m ! idx) \<noteq> 0
         \<and> cf' = cf[idx := cfn]
         \<and> m' = m\<lparr>layers := (layers m)[idx := (layers m ! idx)
                       \<lparr>vwc := max 0.005 (min (sat (swc (layers m ! idx))) v),
                        wc := max 0.005 (min (sat (swc (layers m ! idx))) v)
                                * thick (layers m ! idx) * 1000\<rparr>],
                   pf := (if idx + 1 < numlayers m
                          then (pf m)[idx + 1 := (pf m ! (idx + 1))
                                 \<lparr>influx := bound_outflux (layers m ! idx) (influx (pf m ! idx)) out0\<rparr>]
                          else pf m)
                         [idx := (pf m ! idx)
                            \<lparr>outflux := bound_outflux (layers m ! idx) (influx (pf m ! idx)) out0,
                             netflux := influx (pf m ! idx)
                               - bound_outflux (layers m ! idx) (influx (pf m ! idx)) out0\<rparr>]\<rparr>"
proof -
  from assms obtain out0 dwc v cfn where
    i: "idx < length (layers m)" "idx < length (pf m)" and
    r: "raw_outflux idx m = Inr out0" and
    d: "py_div (netflux ((pf m ! idx)
            \<lparr>outflux := bound_outflux (layers m ! idx) (influx (pf m ! idx)) out0,
             netflux := influx (pf m ! idx)
                 - bound_outflux (layers m ! idx) (influx (pf m ! idx)) out0\<rparr>))
          (of_int (numintervals m)) = Inr dwc" and
    v: "py_div (vwc (layers m ! idx) * thick (layers m ! idx) + dwc) (thick (layers m ! idx)) = Inr v" and
    c: "idx < length cf" and
    res: "cf' = cf[idx := cfn]"
      "m' = m\<lparr>layers := (layers m)[idx := (layers m ! idx)
                       \<lparr>vwc := max 0.005 (min (sat (swc (layers m ! idx))) v),
                        wc := max 0.005 (min (sat (swc (layers m ! idx))) v)
                                * thick (layers m ! idx) * 1000\<rparr>],
                   pf := (if idx + 1 < numlayers m
                          then (pf m)[idx + 1 := (pf m ! (idx + 1))
                                 \<lparr>influx := bound_outflux (layers m ! idx) (influx (pf m ! idx)) out0\<rparr>]
                          else pf m)
                         [idx := (pf m ! idx)
                            \<lparr>outflux := bound_outflux (layers m ! idx) (influx (pf m ! idx)) out0,
                             netflux := influx (pf m ! idx)
                               - bound_outflux (layers m ! idx) (influx (pf m ! idx)) out0\<rparr>]\<rparr>"
    unfolding netflux_step_def Let_def prod.case andthen_eq_Inr py_get_eq_Inr
    by blast
  have "numintervals m \<noteq> 0" using d by (auto simp: py_div_eq_Inr)
  moreover have "thick (layers m ! idx) \<noteq> 0" using v by (auto simp: py_div_eq_Inr)
  ultimately show ?thesis using i r c res by blast
qed


lemma raw_outflux_next:
  assumes "raw_outflux idx m = Inr out0" "idx + 1 < numlayers m"
  shows "idx + 1 < length (pf m)"
  using assms by (auto simp: raw_outflux_def andthen_eq_Inr py_get_eq_Inr)

lemma static_part_vwc_update [simp]:
  "static_part (l\<lparr>vwc := a, wc := b\<rparr>) = static_part l"
  by (simp add: static_part_def)

lemma netflux_step_frame:
  assumes "netflux_step idx (cf, m) = Inr (cf', m')"
  shows "aet m' = aet m" "rootdepth m' = rootdepth m" "numintervals m' = numintervals m"
    "has_watertable m' = has_watertable m" "netrain m' = netrain m" "prz m' = prz m"
    "waterstresses m' = waterstresses m" "rootwater m' = rootwater m"
    "length (layers m') = length (layers m)" "length (pf m') = length (pf m)"
    "length cf' = length cf"
    "map static_part (layers m') = map static_part (layers m)"
    "map k (layers m') = map k (layers m)"
    "map t (pf m') = map t (pf m)"
    "j \<noteq> idx \<Longrightarrow> layers m' ! j = layers m ! j"
    "idx < length (layers m)"
    "0.005 \<le> vwc (layers m' ! idx)"
    "vwc (layers m' ! idx) \<le> max 0.005 (sat (swc (layers m ! idx)))"
proof -
  from netflux_step_D [OF assms] obtain out0 v cfn where
    i: "idx < length (layers m)" "idx < length (pf m)" and
    r: "raw_outflux idx m = Inr out0" and
    cf': "cf' = cf[idx := cfn]" and
    m': "m' = m\<lparr>layers := (layers m)[idx := (layers m ! idx)
                       \<lparr>vwc := max 0.005 (min (sat (swc (layers m ! idx))) v),
                        wc := max 0.005 (min (sat (swc (layers m ! idx))) v)
                                * thick (layers m ! idx) * 1000\<rparr>],
                   pf := (if idx + 1 < numlayers m
                          then (pf m)[idx + 1 := (pf m ! (idx + 1))
                                 \<lparr>influx := bound_outflux (layers m ! idx) (influx (pf m ! idx)) out0\<rparr>]
                          else pf m)
                         [idx := (pf m ! idx)
                            \<lparr>outflux := bound_outflux (layers m ! idx) (influx (pf m ! idx)) out0,
                             netflux := influx (pf m ! idx)
                               - bound_outflux (layers m ! idx) (influx (pf m ! idx)) out0\<rparr>]\<rparr>"
    by blast
  show "aet m' = aet m" "rootdepth m' = rootdepth m" "numintervals m' = numintervals m"
    "has_watertable m' = has_watertable m" "netrain m' = netrain m" "prz m' = prz m"
    "waterstresses m' = waterstresses m" "rootwater m' = rootwater m"
    "length (layers m') = length (layers m)" "length (pf m') = length (pf m)"
    "length cf' = length cf"
    by (simp_all add: m' cf')
  show "map static_part (layers m') = map static_part (layers m)"
    using i by (simp add: m' map_update_same)
  show "map k (layers m') = map k (layers m)"
    using i by (simp add: m' map_update_same)
  show "map t (pf m') = map t (pf m)"
  proof (cases "idx + 1 < numlayers m")
    case True
    then have "idx + 1 < length (pf m)" using raw_outflux_next [OF r] by simp
    then show ?thesis using i True by (simp add: m' map_update_same)
  next
    case False
    then show ?thesis using i by (simp add: m' map_update_same)
  qed
  show "j \<noteq> idx \<Longrightarrow> layers m' ! j = layers m ! j"
    by (simp add: m')
  show "idx < length (layers m)" by (rule i)
  show "0.005 \<le> vwc (layers m' ! idx)"
    using i by (simp add: m')
  show "vwc (layers m' ! idx) \<le> max 0.005 (sat (swc (layers m ! idx)))"
    using i by (simp add: m')
qed

lemma netflux_loop_frame:
  assumes "netflux_loop idxs (cf, m) = Inr (cf', m')"
  shows "aet m' = aet m \<and> rootdepth m' = rootdepth m \<and> numintervals m' = numintervals m
    \<and> has_watertable m' = has_watertable m \<and> netrain m' = netrain m \<and> prz m' = prz m
    \<and> waterstresses m' = waterstresses m \<and> rootwater m' = rootwater m
    \<and> length (layers m') = length (layers m) \<and> length (pf m') = length (pf m)
    \<and> length cf' = length cf
    \<and> map static_part (layers m') = map static_part (layers m)
    \<and> map k (layers m') = map k (layers m)
    \<and> map t (pf m') = map t (pf m)
    \<and> (j \<notin> set idxs \<longrightarrow> layers m' ! j = layers m ! j)
    \<and> (j \<in> set idxs \<longrightarrow> j < length (layers m))"
  using assms
proof (induction idxs arbitrary: cf m)
  case Nil
  then show ?case by simp
next
  case (Cons idx idxs)
  from Cons.prems obtain cf1 m1 where
    s: "netflux_step idx (cf, m) = Inr (cf1, m1)" and
    r: "netflux_loop idxs (cf1, m1) = Inr (cf', m')"
    by (auto simp: andthen_eq_Inr)
  show ?case
    using Cons.IH [OF r] netflux_step_frame [OF s] by auto
qed

text \<open>The clipping of pass 2: every layer the loop visits ends within the bounds, and a
  layer it does not visit is left as it was.\<close>

lemma netflux_loop_clipped:
  assumes "netflux_loop idxs (cf, m) = Inr (cf', m')" "j \<in> set idxs"
  shows "0.005 \<le> vwc (layers m' ! j)
       \<and> vwc (layers m' ! j) \<le> max 0.005 (sat (swc (layers m' ! j)))"
  using assms
proof (induction idxs arbitrary: cf m)
  case Nil
  then show ?case by simp
next
  case (Cons idx idxs)
  from Cons.prems(1) obtain cf1 m1 where
    s: "netflux_step idx (cf, m) = Inr (cf1, m1)" and
    r: "netflux_loop idxs (cf1, m1) = Inr (cf', m')"
    by (auto simp: andthen_eq_Inr)
  show ?case
  proof (cases "j \<in> set idxs")
    case True
    then show ?thesis using Cons.IH [OF r] by simp
  next
    case False
    then have j: "j = idx" using Cons.prems(2) by simp
    note f = netflux_step_frame [OF s]
    have same: "layers m' ! j = layers m1 ! j"
      using netflux_loop_frame [OF r] False by blast
    have "static_part (layers m1 ! idx) = static_part (layers m ! idx)"
      using f(12) f(9) f(16) by (metis nth_map)
    then have "swc (layers m1 ! idx) = swc (layers m ! idx)"
      using static_part_fields by blast
    then show ?thesis using f(17,18) same j by simp
  qed
qed


lemma netflux_step_pf:
  assumes "netflux_step idx (cf, m) = Inr (cf', m')"
  shows "\<exists>out0. raw_outflux idx m = Inr out0
         \<and> outflux (pf m' ! idx) = bound_outflux (layers m ! idx) (influx (pf m ! idx)) out0
         \<and> (idx + 1 < numlayers m \<longrightarrow> influx (pf m' ! (idx + 1)) = outflux (pf m' ! idx))
         \<and> (\<forall>j. j \<noteq> idx \<longrightarrow> outflux (pf m' ! j) = outflux (pf m ! j))
         \<and> (\<forall>j. j \<noteq> idx + 1 \<longrightarrow> influx (pf m' ! j) = influx (pf m ! j))"
proof -
  from netflux_step_D [OF assms] obtain out0 v cfn where
    i: "idx < length (layers m)" "idx < length (pf m)" and
    r: "raw_outflux idx m = Inr out0" and
    m': "m' = m\<lparr>layers := (layers m)[idx := (layers m ! idx)
                       \<lparr>vwc := max 0.005 (min (sat (swc (layers m ! idx))) v),
                        wc := max 0.005 (min (sat (swc (layers m ! idx))) v)
                                * thick (layers m ! idx) * 1000\<rparr>],
                   pf := (if idx + 1 < numlayers m
                          then (pf m)[idx + 1 := (pf m ! (idx + 1))
                                 \<lparr>influx := bound_outflux (layers m ! idx) (influx (pf m ! idx)) out0\<rparr>]
                          else pf m)
                         [idx := (pf m ! idx)
                            \<lparr>outflux := bound_outflux (layers m ! idx) (influx (pf m ! idx)) out0,
                             netflux := influx (pf m ! idx)
                               - bound_outflux (layers m ! idx) (influx (pf m ! idx)) out0\<rparr>]\<rparr>"
    by blast
  have n: "idx + 1 < numlayers m \<Longrightarrow> idx + 1 < length (pf m)"
    using raw_outflux_next [OF r] by simp
  have 1: "outflux (pf m' ! idx) = bound_outflux (layers m ! idx) (influx (pf m ! idx)) out0"
    using i by (simp add: m')
  have 2: "idx + 1 < numlayers m \<longrightarrow> influx (pf m' ! (idx + 1)) = outflux (pf m' ! idx)"
    using i n by (simp add: m')
  have 3: "\<forall>j. j \<noteq> idx \<longrightarrow> outflux (pf m' ! j) = outflux (pf m ! j)"
  proof (intro allI impI)
    fix j assume "j \<noteq> idx"
    then show "outflux (pf m' ! j) = outflux (pf m ! j)"
      using n by (cases "j = idx + 1"; cases "idx + 1 < numlayers m") (simp_all add: m')
  qed
  have 4: "\<forall>j. j \<noteq> idx + 1 \<longrightarrow> influx (pf m' ! j) = influx (pf m ! j)"
  proof (intro allI impI)
    fix j assume "j \<noteq> idx + 1"
    then show "influx (pf m' ! j) = influx (pf m ! j)"
      using i by (cases "j = idx") (simp_all add: m')
  qed
  show ?thesis using r 1 2 3 4 by blast
qed

lemma netflux_loop_continuity:
  assumes "netflux_loop [i..<n] (cf, m) = Inr (cf', m')" "n = numlayers m"
  shows "(\<forall>j. i \<le> j \<and> Suc j < n \<longrightarrow> outflux (pf m' ! j) = influx (pf m' ! Suc j))
       \<and> (\<forall>j<i. outflux (pf m' ! j) = outflux (pf m ! j))
       \<and> (\<forall>j\<le>i. influx (pf m' ! j) = influx (pf m ! j))"
  using assms
proof (induction "n - i" arbitrary: i cf m)
  case 0
  then show ?case by simp
next
  case (Suc d)
  then have lt: "i < n" by simp
  with Suc.prems(1) obtain cf1 m1 where
    s: "netflux_step i (cf, m) = Inr (cf1, m1)" and
    r: "netflux_loop [Suc i..<n] (cf1, m1) = Inr (cf', m')"
    by (auto simp: upt_conv_Cons andthen_eq_Inr)
  have n1: "n = numlayers m1"
    using netflux_step_frame(9) [OF s] Suc.prems(2) by (simp add: numlayers_def)
  have d: "d = n - Suc i" using Suc.hyps(2) by simp
  note IH = Suc.hyps(1) [OF d r n1]
  from netflux_step_pf [OF s] have
    a: "i + 1 < numlayers m \<longrightarrow> influx (pf m1 ! (i + 1)) = outflux (pf m1 ! i)" and
    b: "\<forall>j. j \<noteq> i \<longrightarrow> outflux (pf m1 ! j) = outflux (pf m ! j)" and
    c: "\<forall>j. j \<noteq> i + 1 \<longrightarrow> influx (pf m1 ! j) = influx (pf m ! j)"
    by blast+
  have 1: "outflux (pf m' ! j) = influx (pf m' ! Suc j)" if "i \<le> j" "Suc j < n" for j
  proof (cases "j = i")
    case True
    have "outflux (pf m' ! i) = outflux (pf m1 ! i)" using IH by simp
    moreover have "influx (pf m' ! Suc i) = influx (pf m1 ! Suc i)" using IH by simp
    ultimately show ?thesis using a that True Suc.prems(2) by simp
  next
    case False
    then show ?thesis using IH that by simp
  qed
  have 2: "outflux (pf m' ! j) = outflux (pf m ! j)" if "j < i" for j
    using IH b that by simp
  have 3: "influx (pf m' ! j) = influx (pf m ! j)" if "j \<le> i" for j
    using IH c that by simp
  show ?case using 1 2 3 by blast
qed

lemma raw_outflux_last:
  assumes "raw_outflux idx m = Inr out0" "idx + 1 = numlayers m"
  shows "if has_watertable m then watertable_influx (layers m ! idx) = Inr out0
         else out0 = k (layers m ! idx)"
proof -
  have ne: "layers m \<noteq> []"
    using assms(2) by (auto simp: numlayers_def)
  have "length (layers m) - 1 = idx"
    using assms(2) by (simp add: numlayers_def)
  then have "last (layers m) = layers m ! idx"
    using last_conv_nth [OF ne] by simp
  with ne show ?thesis
    using assms
    by (auto simp: raw_outflux_def andthen_eq_Inr py_get_eq_Inr influx_from_watertable_def
        last_layer_def)
qed

lemma netflux_loop_last:
  assumes "netflux_loop [i..<n] (cf, m) = Inr (cf', m')" "n = numlayers m" "i < n"
  shows "\<exists>out0. (if has_watertable m then watertable_influx (layers m ! (n - 1)) = Inr out0
                 else out0 = k (layers m ! (n - 1)))
        \<and> outflux (pf m' ! (n - 1))
            = bound_outflux (layers m ! (n - 1)) (influx (pf m' ! (n - 1))) out0"
  using assms
proof (induction "n - i" arbitrary: i cf m)
  case 0
  then show ?case by simp
next
  case (Suc d)
  from Suc.prems(1,3) obtain cf1 m1 where
    s: "netflux_step i (cf, m) = Inr (cf1, m1)" and
    r: "netflux_loop [Suc i..<n] (cf1, m1) = Inr (cf', m')"
    by (auto simp: upt_conv_Cons andthen_eq_Inr)
  note f = netflux_step_frame [OF s]
  have n1: "n = numlayers m1"
    using f(9) Suc.prems(2) by (simp add: numlayers_def)
  have d: "d = n - Suc i" using Suc.hyps(2) by simp
  show ?case
  proof (cases "Suc i < n")
    case True
    then have "n - 1 \<noteq> i" by simp
    then have l: "layers m1 ! (n - 1) = layers m ! (n - 1)" using f(15) by simp
    from Suc.hyps(1) [OF d r n1 True] show ?thesis
      unfolding l f(4) .
  next
    case False
    then have i: "i = n - 1" "i + 1 = numlayers m" using Suc.prems(2,3) by simp_all
    have e: "[Suc i..<n] = []" using False by simp
    have m': "m' = m1" using r unfolding e by simp
    from netflux_step_pf [OF s] obtain out0 where
      ro: "raw_outflux i m = Inr out0" and
      o: "outflux (pf m1 ! i) = bound_outflux (layers m ! i) (influx (pf m ! i)) out0" and
      c: "\<forall>j. j \<noteq> i + 1 \<longrightarrow> influx (pf m1 ! j) = influx (pf m ! j)"
      by blast
    have "influx (pf m1 ! i) = influx (pf m ! i)" using c by simp
    then show ?thesis
      using raw_outflux_last [OF ro i(2)] o m' i(1) by auto
  qed
qed

lemma calc_water_fluxes_D:
  assumes "calc_water_fluxes cf m petcrop petsoil = Inr (cf', m')"
  shows "\<exists>rz ws m3.
           rootzone_water m = Inr rz
         \<and> reduce_et (m\<lparr>prz := rz\<rparr>) = Inr ws
         \<and> influx_loop [0..<numlayers m] 0
              (m\<lparr>prz := rz, waterstresses := ws,
                 aet := \<lparr>crop = crop ws * petcrop, soil = soil ws * petsoil\<rparr>\<rparr>) = Inr m3
         \<and> numlayers m3 = numlayers m
         \<and> netflux_loop [0..<numlayers m] (cf, m3) = Inr (cf', m')"
proof -
  from assms obtain rz ws m3 where
    1: "rootzone_water m = Inr rz" and 2: "reduce_et (m\<lparr>prz := rz\<rparr>) = Inr ws" and
    3: "influx_loop [0..<numlayers m] 0
              (m\<lparr>prz := rz, waterstresses := ws,
                 aet := \<lparr>crop = crop ws * petcrop, soil = soil ws * petsoil\<rparr>\<rparr>) = Inr m3" and
    4: "netflux_loop [0..<numlayers m3] (cf, m3) = Inr (cf', m')"
    by (auto simp: calc_water_fluxes_def andthen_eq_Inr Let_def actual_et_def numlayers_def)
  have "numlayers m3 = numlayers m"
    using influx_loop_frame [OF 3] by (simp add: numlayers_def)
  with 1 2 3 4 show ?thesis by auto
qed

section \<open>The flux computation returns\<close>

lemma good_layer_static:
  assumes "good_layer a" "static_part b = static_part a" "0 < vwc b"
  shows "good_layer b"
  using assms static_part_fields [OF assms(2)] by (simp add: good_layer_def)

lemma influx_step_returns:
  assumes "idx < length (layers m)" "idx < length (pf m)" "good_layer (layers m ! idx)"
    and "rootdepth m \<noteq> 0"
    and "0 < idx \<longrightarrow> 0 < k (layers m ! (idx - 1))
                   \<and> depth (layers m ! idx) \<noteq> depth (layers m ! (idx - 1))"
  shows "\<exists>q m'. influx_step idx p m = Inr (q, m')"
proof -
  have g: "0 < vwc (layers m ! idx)" "0 < sat (swc (layers m ! idx))"
    "psd (swc (layers m ! idx)) \<noteq> 0" "sat (swc (layers m ! idx)) \<noteq> fc (swc (layers m ! idx))"
    "0 < ksat (layers m ! idx)"
    using assms(3) by (simp_all add: good_layer_def)
  obtain cur where u: "update_heads_k (layers m ! idx) = Inr cur"
    using update_heads_k_returns [OF g(1-4)] by blast
  have kpos: "0 < k cur" using update_heads_k_pos [OF u g(1,2,5)] .
  have "depth cur = depth (layers m ! idx)"
    using static_part_update_heads_k [OF u] static_part_fields by blast
  then have dd: "0 < idx \<Longrightarrow> depth cur - depth (layers m ! (idx - 1)) \<noteq> 0"
    using assms(5) by simp
  have kp: "0 < idx \<Longrightarrow> 0 < k (layers m ! (idx - 1))" using assms(5) by simp
  show ?thesis
    using assms(1,2,4) u kpos dd kp
    by (simp add: influx_step_def Let_def ex_Inr_iff)
qed


lemma nth_map_eq:
  "map f xs = map f ys \<Longrightarrow> j < length ys \<Longrightarrow> f (xs ! j) = f (ys ! j)"
  by (metis length_map nth_map)

lemma influx_loop_returns:
  assumes "n \<le> length (layers m)" "n \<le> length (pf m)" "rootdepth m \<noteq> 0"
    and "\<forall>j<n. good_layer (layers m ! j)"
    and "\<forall>j. 0 < j \<and> j < n \<longrightarrow> depth (layers m ! j) \<noteq> depth (layers m ! (j - 1))"
    and "0 < i \<longrightarrow> 0 < k (layers m ! (i - 1))"
  shows "\<exists>m'. influx_loop [i..<n] p m = Inr m'"
  using assms
proof (induction "n - i" arbitrary: i p m)
  case 0
  then show ?case by simp
next
  case (Suc d)
  then have lt: "i < n" by simp
  have "\<exists>q m1. influx_step i p m = Inr (q, m1)"
    using Suc.prems lt by (intro influx_step_returns) auto
  then obtain q m1 where s: "influx_step i p m = Inr (q, m1)" by blast
  note f = influx_step_frame [OF s]
  from influx_step_D [OF s] obtain cur where
    u: "update_heads_k (layers m ! i) = Inr cur" and li: "layers m1 ! i = cur"
    by auto
  have gi: "good_layer (layers m ! i)" using Suc.prems(4) lt by simp
  then have "0 < k cur"
    using update_heads_k_pos [OF u] by (simp add: good_layer_def)
  then have kpos: "0 < Suc i \<longrightarrow> 0 < k (layers m1 ! (Suc i - 1))" using li by simp
  have st: "static_part (layers m1 ! j) = static_part (layers m ! j)" if "j < n" for j
    using nth_map_eq [OF f(11)] that Suc.prems(1) by simp
  have vw: "vwc (layers m1 ! j) = vwc (layers m ! j)" if "j < n" for j
    using nth_map_eq [OF f(12)] that Suc.prems(1) by simp
  have good: "\<forall>j<n. good_layer (layers m1 ! j)"
  proof (intro allI impI)
    fix j assume j: "j < n"
    have "good_layer (layers m ! j)" using Suc.prems(4) j by simp
    moreover then have "0 < vwc (layers m1 ! j)" using vw [OF j] by (simp add: good_layer_def)
    ultimately show "good_layer (layers m1 ! j)" using good_layer_static st [OF j] by blast
  qed
  have dep: "\<forall>j. 0 < j \<and> j < n \<longrightarrow> depth (layers m1 ! j) \<noteq> depth (layers m1 ! (j - 1))"
  proof (intro allI impI)
    fix j assume j: "0 < j \<and> j < n"
    then have "j - 1 < n" by arith
    then have "depth (layers m1 ! (j - 1)) = depth (layers m ! (j - 1))"
      using st static_part_fields by blast
    moreover have "depth (layers m1 ! j) = depth (layers m ! j)"
      using st j static_part_fields by blast
    ultimately show "depth (layers m1 ! j) \<noteq> depth (layers m1 ! (j - 1))"
      using Suc.prems(5) j by simp
  qed
  have d: "d = n - Suc i" using Suc.hyps(2) by simp
  have "\<exists>m'. influx_loop [Suc i..<n] q m1 = Inr m'"
    using Suc.hyps(1) [OF d _ _ _ good dep kpos] Suc.prems(1,2,3) f(2,9,10) by simp
  then show ?case using s lt by (auto simp: upt_conv_Cons)
qed

lemma add_fluxes_returns: "n \<noteq> 0 \<Longrightarrow> \<exists>r. add_fluxes n cf pfi = Inr r"
  by (simp add: add_fluxes_def)

lemma raw_outflux_returns:
  assumes "idx < length (layers m)" "length (pf m) = length (layers m)" "\<not> has_watertable m"
  shows "\<exists>r. raw_outflux idx m = Inr r"
  using assms by (simp add: raw_outflux_def numlayers_def)

lemma netflux_step_returns:
  assumes "idx < length (layers m)" "length (pf m) = length (layers m)"
    "length cf = length (layers m)" "\<not> has_watertable m" "numintervals m \<noteq> 0"
    "thick (layers m ! idx) \<noteq> 0"
  shows "\<exists>cf' m'. netflux_step idx (cf, m) = Inr (cf', m')"
proof -
  obtain r where r: "raw_outflux idx m = Inr r"
    using raw_outflux_returns [OF assms(1,2,4)] by blast
  have n: "real_of_int (numintervals m) \<noteq> 0" using assms(5) by simp
  obtain cfn where
    "add_fluxes (numintervals m) (cf ! idx)
       ((pf m ! idx)\<lparr>outflux := bound_outflux (layers m ! idx) (influx (pf m ! idx)) r,
           netflux := influx (pf m ! idx)
              - bound_outflux (layers m ! idx) (influx (pf m ! idx)) r\<rparr>) = Inr cfn"
    using add_fluxes_returns [OF assms(5)] by blast
  then show ?thesis
    using assms(1,2,3,6) r n by (simp add: netflux_step_def Let_def)
qed

lemma netflux_loop_returns:
  assumes "n = length (layers m)" "length (pf m) = n" "length cf = n"
    "\<not> has_watertable m" "numintervals m \<noteq> 0" "\<forall>j<n. thick (layers m ! j) \<noteq> 0"
  shows "\<exists>cf' m'. netflux_loop [i..<n] (cf, m) = Inr (cf', m')"
  using assms
proof (induction "n - i" arbitrary: i cf m)
  case 0
  then show ?case by simp
next
  case (Suc d)
  then have lt: "i < n" by simp
  have "\<exists>cf1 m1. netflux_step i (cf, m) = Inr (cf1, m1)"
    using Suc.prems lt by (intro netflux_step_returns) auto
  then obtain cf1 m1 where s: "netflux_step i (cf, m) = Inr (cf1, m1)" by blast
  note f = netflux_step_frame [OF s]
  have th: "\<forall>j<n. thick (layers m1 ! j) \<noteq> 0"
  proof (intro allI impI)
    fix j assume j: "j < n"
    have "static_part (layers m1 ! j) = static_part (layers m ! j)"
      using nth_map_eq [OF f(12)] j Suc.prems(1) by simp
    then have "thick (layers m1 ! j) = thick (layers m ! j)"
      using static_part_fields by blast
    then show "thick (layers m1 ! j) \<noteq> 0" using Suc.prems(6) j by simp
  qed
  have d: "d = n - Suc i" using Suc.hyps(2) by simp
  have "\<exists>cf' m'. netflux_loop [Suc i..<n] (cf1, m1) = Inr (cf', m')"
    using Suc.hyps(1) [OF d _ _ _ _ _ th] Suc.prems(1-5) f(3,4,9,10,11) by simp
  then show ?case using s lt by (auto simp: upt_conv_Cons)
qed

lemma rootzone_water_returns: "rootdepth m \<noteq> 0 \<Longrightarrow> \<exists>rz. rootzone_water m = Inr rz"
  by (simp add: rootzone_water_def split: prod.splits)

lemma reduce_et_returns:
  assumes "layers m \<noteq> []" "0 < vwc (layers m ! 0)" "0 < sat (swc (layers m ! 0))"
  shows "\<exists>ws. reduce_et m = Inr ws"
proof -
  have l: "0 < length (layers m)" using assms(1) by simp
  have q: "0 < 3.6073 * (vwc (layers m ! 0) / sat (swc (layers m ! 0)))"
    using assms(2,3) by simp
  have "0 < (3.6073 * (vwc (layers m ! 0) / sat (swc (layers m ! 0)))) powr (- 9.3172)"
    using assms(2,3) by simp
  then have p: "1 + (3.6073 * (vwc (layers m ! 0) / sat (swc (layers m ! 0)))) powr (- 9.3172) \<noteq> 0"
    by linarith
  have s: "sat (swc (layers m ! 0)) \<noteq> 0" using assms(3) by simp
  show ?thesis
    unfolding reduce_et_def
    by (simp only: py_get_Inr [OF l] andthen_Inr py_div_Inr [OF s] py_pow_Inr [OF q]
        py_div_Inr [OF p])
      (auto simp: ex_Inr_iff)
qed

lemma reduce_et_crop:
  assumes "reduce_et m = Inr ws"
  shows "0 < crop ws \<and> crop ws \<le> 1"
proof -
  from assms obtain rdt where
    r: "(if rz_vwc (prz m) \<ge> rz_critical (prz m) then Inr 1
        else if rz_pwp (prz m) < rz_vwc (prz m) \<and> rz_vwc (prz m) < rz_critical (prz m) then
          py_div (rz_vwc (prz m) - rz_pwp (prz m)) (rz_critical (prz m) - rz_pwp (prz m))
        else Inr 0.01) = Inr rdt" and c: "crop ws = rdt"
    by (auto simp: reduce_et_def andthen_eq_Inr)
  have "0 < rdt \<and> rdt \<le> 1"
    using r by (auto simp: py_div_eq_Inr split: if_splits)
  then show ?thesis using c by simp
qed

lemma calc_water_fluxes_frame:
  assumes "calc_water_fluxes cf m petcrop petsoil = Inr (cf', m')"
  shows "rootdepth m' = rootdepth m" "numintervals m' = numintervals m"
    "has_watertable m' = has_watertable m" "netrain m' = netrain m"
    "rootwater m' = rootwater m"
    "length (layers m') = length (layers m)" "length (pf m') = length (pf m)"
    "length cf' = length cf"
    "map static_part (layers m') = map static_part (layers m)"
proof -
  from calc_water_fluxes_D [OF assms] obtain rz ws m3 where
    3: "influx_loop [0..<numlayers m] 0
              (m\<lparr>prz := rz, waterstresses := ws,
                 aet := \<lparr>crop = crop ws * petcrop, soil = soil ws * petsoil\<rparr>\<rparr>) = Inr m3" and
    4: "netflux_loop [0..<numlayers m] (cf, m3) = Inr (cf', m')"
    by blast
  note a = influx_loop_frame [OF 3, of 0] and b = netflux_loop_frame [OF 4, of 0]
  show "rootdepth m' = rootdepth m" "numintervals m' = numintervals m"
    "has_watertable m' = has_watertable m" "netrain m' = netrain m"
    "rootwater m' = rootwater m"
    "length (layers m') = length (layers m)" "length (pf m') = length (pf m)"
    "length cf' = length cf"
    "map static_part (layers m') = map static_part (layers m)"
    using a b by simp_all
qed

lemma calc_water_fluxes_clipped:
  assumes "calc_water_fluxes cf m petcrop petsoil = Inr (cf', m')" "j < length (layers m')"
  shows "0.005 \<le> vwc (layers m' ! j)
       \<and> vwc (layers m' ! j) \<le> max 0.005 (sat (swc (layers m' ! j)))"
proof -
  from calc_water_fluxes_D [OF assms(1)] obtain m3 where
    4: "netflux_loop [0..<numlayers m] (cf, m3) = Inr (cf', m')"
    by blast
  have "j \<in> set [0..<numlayers m]"
    using assms(2) calc_water_fluxes_frame(6) [OF assms(1)] by (simp add: numlayers_def)
  then show ?thesis by (rule netflux_loop_clipped [OF 4])
qed

lemma ready_nth:
  assumes "ready m"
  shows "\<forall>j<length (layers m). good_layer (layers m ! j)"
    and "\<forall>j. 0 < j \<and> j < length (layers m) \<longrightarrow>
              depth (layers m ! j) \<noteq> depth (layers m ! (j - 1))"
proof -
  show "\<forall>j<length (layers m). good_layer (layers m ! j)"
    using assms by (simp add: ready_def list_all_length)
  have d: "\<forall>i. Suc i < length (layers m) \<longrightarrow> depth (layers m ! i) \<noteq> depth (layers m ! Suc i)"
    using assms by (simp add: ready_def distinct_adj_conv_nth)
  show "\<forall>j. 0 < j \<and> j < length (layers m) \<longrightarrow>
              depth (layers m ! j) \<noteq> depth (layers m ! (j - 1))"
  proof (intro allI impI)
    fix j assume "0 < j \<and> j < length (layers m)"
    then obtain i where "j = Suc i" "Suc i < length (layers m)"
      by (cases j) auto
    then show "depth (layers m ! j) \<noteq> depth (layers m ! (j - 1))"
      using d by fastforce
  qed
qed

lemma static_part_last:
  assumes "map static_part xs = map static_part ys" "ys \<noteq> []"
  shows "static_part (last xs) = static_part (last ys)"
proof -
  have "xs \<noteq> []" using assms by auto
  then have "static_part (last xs) = last (map static_part xs)"
    by (simp add: last_map)
  also have "\<dots> = static_part (last ys)"
    using assms by (simp add: last_map)
  finally show ?thesis .
qed

text \<open>A state that differs from a ready one only in the dynamic attributes of its
  layers, with positive water contents, is ready.\<close>

lemma ready_static:
  assumes "ready m" "map static_part (layers m') = map static_part (layers m)"
    "length (pf m') = length (layers m')" "rootdepth m' = rootdepth m"
    "numintervals m' = numintervals m" "has_watertable m' = has_watertable m"
    "\<forall>j<length (layers m'). 0 < vwc (layers m' ! j)"
  shows "ready m'"
proof -
  have len: "length (layers m') = length (layers m)"
    using assms(2) by (metis length_map)
  have ne: "layers m \<noteq> []" using assms(1) by (simp add: ready_def)
  then have ne': "layers m' \<noteq> []" using len by auto
  have "accthick (last (layers m')) = accthick (last (layers m))"
    using static_part_last [OF assms(2) ne] static_part_fields by blast
  then have acc: "0 < accthick (last (layers m'))"
    using assms(1) by (simp add: ready_def)
  have good: "list_all good_layer (layers m')"
    unfolding list_all_length
  proof (intro allI impI)
    fix j assume j: "j < length (layers m')"
    have "good_layer (layers m ! j)" using ready_nth(1) [OF assms(1)] j len by simp
    moreover have "static_part (layers m' ! j) = static_part (layers m ! j)"
      using nth_map_eq [OF assms(2)] j len by simp
    ultimately show "good_layer (layers m' ! j)"
      using good_layer_static assms(7) j by blast
  qed
  have "map depth (layers m') = map depth (layers m)"
  proof (rule nth_equalityI)
    show "length (map depth (layers m')) = length (map depth (layers m))" using len by simp
  next
    fix j assume "j < length (map depth (layers m'))"
    then have j: "j < length (layers m)" using len by simp
    have "static_part (layers m' ! j) = static_part (layers m ! j)"
      using nth_map_eq [OF assms(2)] j by simp
    then have "depth (layers m' ! j) = depth (layers m ! j)"
      using static_part_fields by blast
    then show "map depth (layers m') ! j = map depth (layers m) ! j"
      using j len by simp
  qed
  then have "distinct_adj (map depth (layers m'))"
    using assms(1) by (simp add: ready_def)
  then show ?thesis
    using assms(1,3,4,5,6) ne' acc good by (simp add: ready_def)
qed

lemma calc_water_fluxes_returns:
  assumes "ready m" "length cf = length (layers m)"
  shows "\<exists>cf' m'. calc_water_fluxes cf m petcrop petsoil = Inr (cf', m')
                 \<and> ready m' \<and> length cf' = length cf"
proof -
  have r: "layers m \<noteq> []" "length (pf m) = length (layers m)" "rootdepth m \<noteq> 0"
    "numintervals m \<noteq> 0" "\<not> has_watertable m"
    using assms(1) by (auto simp: ready_def)
  note g = ready_nth [OF assms(1)]
  have g0: "good_layer (layers m ! 0)" using g(1) r(1) by simp
  obtain rz where 1: "rootzone_water m = Inr rz"
    using rootzone_water_returns [OF r(3)] by blast
  have "\<exists>ws. reduce_et (m\<lparr>prz := rz\<rparr>) = Inr ws"
    using g0 r(1) by (intro reduce_et_returns) (simp_all add: good_layer_def)
  then obtain ws where 2: "reduce_et (m\<lparr>prz := rz\<rparr>) = Inr ws" by blast
  define m2 where "m2 = m\<lparr>prz := rz, waterstresses := ws,
                 aet := \<lparr>crop = crop ws * petcrop, soil = soil ws * petsoil\<rparr>\<rparr>"
  have "\<exists>m3. influx_loop [0..<length (layers m2)] 0 m2 = Inr m3"
    using r g by (intro influx_loop_returns) (simp_all add: m2_def)
  then obtain m3 where 3: "influx_loop [0..<length (layers m2)] 0 m2 = Inr m3" by blast
  note f3 = influx_loop_frame [OF 3, of 0]
  have l3: "length (layers m3) = length (layers m)" using f3 by (simp add: m2_def)
  have th: "\<forall>j<length (layers m3). thick (layers m3 ! j) \<noteq> 0"
  proof (intro allI impI)
    fix j assume j: "j < length (layers m3)"
    have "map static_part (layers m3) = map static_part (layers m)"
      using f3 by (simp add: m2_def)
    then have "static_part (layers m3 ! j) = static_part (layers m ! j)"
      using nth_map_eq j l3 by simp
    then have "thick (layers m3 ! j) = thick (layers m ! j)"
      using static_part_fields by blast
    then show "thick (layers m3 ! j) \<noteq> 0"
      using g(1) j l3 by (simp add: good_layer_def)
  qed
  have "\<exists>cf' m'. netflux_loop [0..<length (layers m3)] (cf, m3) = Inr (cf', m')"
    using f3 r assms(2) th l3 by (intro netflux_loop_returns) (simp_all add: m2_def)
  then obtain cf' m' where 4: "netflux_loop [0..<length (layers m3)] (cf, m3) = Inr (cf', m')"
    by blast
  have c: "calc_water_fluxes cf m petcrop petsoil = Inr (cf', m')"
    using 1 2 3 4 by (simp add: calc_water_fluxes_def Let_def actual_et_def numlayers_def m2_def)
  note f = calc_water_fluxes_frame [OF c]
  have vpos: "\<forall>j<length (layers m'). 0 < vwc (layers m' ! j)"
  proof (intro allI impI)
    fix j assume "j < length (layers m')"
    from calc_water_fluxes_clipped [OF c this] have "0.005 \<le> vwc (layers m' ! j)" by simp
    then show "0 < vwc (layers m' ! j)" by simp
  qed
  have lp: "length (pf m') = length (layers m')" using f(6,7) r(2) by simp
  have "ready m'"
    by (rule ready_static [OF assms(1) f(9) lp f(1) f(2) f(3) vpos])
  then show ?thesis using c f(8) by blast
qed

section \<open>The daily step\<close>

lemma subinterval_loop_frame:
  assumes "subinterval_loop n (cf, m) petcrop petsoil = Inr (cf', m')"
  shows "rootdepth m' = rootdepth m \<and> numintervals m' = numintervals m
    \<and> has_watertable m' = has_watertable m \<and> netrain m' = netrain m
    \<and> rootwater m' = rootwater m
    \<and> length (layers m') = length (layers m) \<and> length (pf m') = length (pf m)
    \<and> length cf' = length cf
    \<and> map static_part (layers m') = map static_part (layers m)"
  using assms
proof (induction n arbitrary: cf m)
  case 0
  then show ?case by simp
next
  case (Suc n)
  from Suc.prems obtain cf1 m1 where
    s: "calc_water_fluxes cf m petcrop petsoil = Inr (cf1, m1)" and
    r: "subinterval_loop n (cf1, m1) petcrop petsoil = Inr (cf', m')"
    by (auto simp: andthen_eq_Inr)
  show ?case
    using Suc.IH [OF r] calc_water_fluxes_frame [OF s] by simp
qed

lemma subinterval_loop_clipped:
  assumes "subinterval_loop n (cf, m) petcrop petsoil = Inr (cf', m')" "0 < n"
    "j < length (layers m')"
  shows "0.005 \<le> vwc (layers m' ! j)
       \<and> vwc (layers m' ! j) \<le> max 0.005 (sat (swc (layers m' ! j)))"
  using assms
proof (induction n arbitrary: cf m)
  case 0
  then show ?case by simp
next
  case (Suc n)
  from Suc.prems(1) obtain cf1 m1 where
    s: "calc_water_fluxes cf m petcrop petsoil = Inr (cf1, m1)" and
    r: "subinterval_loop n (cf1, m1) petcrop petsoil = Inr (cf', m')"
    by (auto simp: andthen_eq_Inr)
  show ?case
  proof (cases n)
    case 0
    then have "m' = m1" using r by simp
    then show ?thesis using calc_water_fluxes_clipped [OF s] Suc.prems(3) by simp
  next
    case (Suc k)
    then show ?thesis using Suc.IH [OF r _ Suc.prems(3)] by simp
  qed
qed

lemma subinterval_loop_returns:
  assumes "ready m" "length cf = length (layers m)"
  shows "\<exists>cf' m'. subinterval_loop n (cf, m) petcrop petsoil = Inr (cf', m') \<and> ready m'"
  using assms
proof (induction n arbitrary: cf m)
  case 0
  then show ?case by simp
next
  case (Suc n)
  from calc_water_fluxes_returns [OF Suc.prems] obtain cf1 m1 where
    s: "calc_water_fluxes cf m petcrop petsoil = Inr (cf1, m1)" and
    r: "ready m1" and l: "length cf1 = length cf"
    by blast
  have "length cf1 = length (layers m1)"
    using l Suc.prems(2) calc_water_fluxes_frame(6) [OF s] by simp
  from Suc.IH [OF r this] show ?case using s by simp
qed

lemma rooting_depth_eq:
  "rooting_depth m = Inr rd \<longleftrightarrow>
   layers m \<noteq> [] \<and> rd = min (rootdepth m + 0.008) (accthick (last (layers m)))"
  by (auto simp: rooting_depth_def last_layer_def)

lemma static_part_fluxes [simp]: "static_part (l\<lparr>fluxes := x\<rparr>) = static_part l"
  by (simp add: static_part_def)

lemma map_zip_fluxes:
  assumes "length cfs = length ls"
  shows "map static_part (map (\<lambda>(layer, cf). layer\<lparr>fluxes := cf\<rparr>) (zip ls cfs))
           = map static_part ls"
    and "map vwc (map (\<lambda>(layer, cf). layer\<lparr>fluxes := cf\<rparr>) (zip ls cfs)) = map vwc ls"
    and "map k (map (\<lambda>(layer, cf). layer\<lparr>fluxes := cf\<rparr>) (zip ls cfs)) = map k ls"
  using assms by (induction ls cfs rule: list_induct2'; simp)+

lemma daily_water_balance_D:
  assumes "daily_water_balance m rain lai petcrop petsoil = Inr m'"
  shows "\<exists>cf' m2.
           layers m \<noteq> []
         \<and> subinterval_loop (nat (numintervals m))
             (replicate (length (layers m)) Fluxes_zero,
              m\<lparr>netrain := net_rainfall rain lai,
                rootdepth := min (rootdepth m + 0.008) (accthick (last (layers m)))\<rparr>)
             petcrop petsoil = Inr (cf', m2)
         \<and> length cf' = length (layers m2)
         \<and> m' = m2\<lparr>rootwater := prz m2,
                    layers := map (\<lambda>(layer, cf). layer\<lparr>fluxes := cf\<rparr>) (zip (layers m2) cf')\<rparr>"
proof -
  from assms obtain rd cf' m2 where
    1: "rooting_depth (m\<lparr>netrain := net_rainfall rain lai\<rparr>) = Inr rd" and
    2: "subinterval_loop (nat (numintervals m))
             (replicate (length (layers m)) Fluxes_zero,
              m\<lparr>netrain := net_rainfall rain lai, rootdepth := rd\<rparr>)
             petcrop petsoil = Inr (cf', m2)" and
    3: "m' = m2\<lparr>rootwater := prz m2,
                    layers := map (\<lambda>(layer, cf). layer\<lparr>fluxes := cf\<rparr>) (zip (layers m2) cf')\<rparr>"
    by (auto simp: daily_water_balance_def andthen_eq_Inr Let_def numlayers_def)
  have "length cf' = length (layers m2)"
    using subinterval_loop_frame [OF 2] by simp
  then show ?thesis
    using 1 2 3 by (auto simp: rooting_depth_eq)
qed

lemma daily_water_balance_frame:
  assumes "daily_water_balance m rain lai petcrop petsoil = Inr m'"
  shows "layers m \<noteq> []"
    "rootdepth m' = min (rootdepth m + 0.008) (accthick (last (layers m)))"
    "numintervals m' = numintervals m" "has_watertable m' = has_watertable m"
    "length (pf m') = length (pf m)"
    "map static_part (layers m') = map static_part (layers m)"
proof -
  from daily_water_balance_D [OF assms] obtain cf' m2 where
    1: "layers m \<noteq> []" and
    2: "subinterval_loop (nat (numintervals m))
             (replicate (length (layers m)) Fluxes_zero,
              m\<lparr>netrain := net_rainfall rain lai,
                rootdepth := min (rootdepth m + 0.008) (accthick (last (layers m)))\<rparr>)
             petcrop petsoil = Inr (cf', m2)" and
    l: "length cf' = length (layers m2)" and
    3: "m' = m2\<lparr>rootwater := prz m2,
                    layers := map (\<lambda>(layer, cf). layer\<lparr>fluxes := cf\<rparr>) (zip (layers m2) cf')\<rparr>"
    by blast
  note f = subinterval_loop_frame [OF 2]
  show "layers m \<noteq> []" by (rule 1)
  show "rootdepth m' = min (rootdepth m + 0.008) (accthick (last (layers m)))"
    "numintervals m' = numintervals m" "has_watertable m' = has_watertable m"
    "length (pf m') = length (pf m)"
    using f by (simp_all add: 3)
  show "map static_part (layers m') = map static_part (layers m)"
    using f map_zip_fluxes(1) [OF l] by (simp add: 3)
qed

lemma daily_water_balance_clipped:
  assumes "daily_water_balance m rain lai petcrop petsoil = Inr m'" "0 < numintervals m"
    "j < length (layers m')"
  shows "0.005 \<le> vwc (layers m' ! j)
       \<and> vwc (layers m' ! j) \<le> max 0.005 (sat (swc (layers m' ! j)))"
proof -
  from daily_water_balance_D [OF assms(1)] obtain cf' m2 where
    2: "subinterval_loop (nat (numintervals m))
             (replicate (length (layers m)) Fluxes_zero,
              m\<lparr>netrain := net_rainfall rain lai,
                rootdepth := min (rootdepth m + 0.008) (accthick (last (layers m)))\<rparr>)
             petcrop petsoil = Inr (cf', m2)" and
    l: "length cf' = length (layers m2)" and
    3: "m' = m2\<lparr>rootwater := prz m2,
                    layers := map (\<lambda>(layer, cf). layer\<lparr>fluxes := cf\<rparr>) (zip (layers m2) cf')\<rparr>"
    by blast
  have len: "length (layers m') = length (layers m2)" using l by (simp add: 3)
  then have j: "j < length (layers m2)" using assms(3) by simp
  have n: "0 < nat (numintervals m)" using assms(2) by simp
  note c = subinterval_loop_clipped [OF 2 n j]
  have "map static_part (layers m') = map static_part (layers m2)"
    "map vwc (layers m') = map vwc (layers m2)"
    using map_zip_fluxes [OF l] by (simp_all add: 3)
  then have "static_part (layers m' ! j) = static_part (layers m2 ! j)"
    "vwc (layers m' ! j) = vwc (layers m2 ! j)"
    using nth_map_eq j by blast+
  then have "swc (layers m' ! j) = swc (layers m2 ! j)" "vwc (layers m' ! j) = vwc (layers m2 ! j)"
    using static_part_fields by blast+
  then show ?thesis using c by simp
qed

lemma daily_water_balance_returns:
  assumes "ready m"
  shows "\<exists>m'. daily_water_balance m rain lai petcrop petsoil = Inr m' \<and> ready m'"
proof -
  define m1 where "m1 = m\<lparr>netrain := net_rainfall rain lai,
                rootdepth := min (rootdepth m + 0.008) (accthick (last (layers m)))\<rparr>"
  have r: "layers m \<noteq> []" "0 < rootdepth m" "0 < accthick (last (layers m))"
    using assms by (auto simp: ready_def)
  have "ready m1"
    using assms r by (simp add: ready_def m1_def)
  moreover have "length (replicate (length (layers m)) Fluxes_zero) = length (layers m1)"
    by (simp add: m1_def)
  ultimately obtain cf' m2 where
    2: "subinterval_loop (nat (numintervals m)) (replicate (length (layers m)) Fluxes_zero, m1)
          petcrop petsoil = Inr (cf', m2)" and r2: "ready m2"
    using subinterval_loop_returns by blast
  define m' where "m' = m2\<lparr>rootwater := prz m2,
                    layers := map (\<lambda>(layer, cf). layer\<lparr>fluxes := cf\<rparr>) (zip (layers m2) cf')\<rparr>"
  have d: "daily_water_balance m rain lai petcrop petsoil = Inr m'"
    using r(1) 2
    by (simp add: daily_water_balance_def rooting_depth_def last_layer_def Let_def numlayers_def
        m1_def m'_def)
  have l: "length cf' = length (layers m2)"
    using subinterval_loop_frame [OF 2] by (simp add: m1_def)
  have vpos: "\<forall>j<length (layers m'). 0 < vwc (layers m' ! j)"
  proof (intro allI impI)
    fix j assume j: "j < length (layers m')"
    then have j2: "j < length (layers m2)" using l by (simp add: m'_def)
    have "map vwc (layers m') = map vwc (layers m2)"
      using map_zip_fluxes(2) [OF l] by (simp add: m'_def)
    then have "vwc (layers m' ! j) = vwc (layers m2 ! j)"
      using nth_map_eq j2 by blast
    moreover have "good_layer (layers m2 ! j)" using ready_nth(1) [OF r2] j2 by simp
    ultimately show "0 < vwc (layers m' ! j)" by (simp add: good_layer_def)
  qed
  have s: "map static_part (layers m') = map static_part (layers m2)"
    using map_zip_fluxes(1) [OF l] by (simp add: m'_def)
  have lp: "length (pf m') = length (layers m')"
    using r2 l by (simp add: m'_def ready_def)
  have "ready m'"
    by (rule ready_static [OF r2 s lp _ _ _ vpos]) (simp_all add: m'_def)
  with d show ?thesis by blast
qed

lemma run_days_returns:
  assumes "ready m"
  shows "\<exists>m'. run_days m days = Inr m' \<and> ready m'"
  using assms
proof (induction days arbitrary: m)
  case Nil
  then show ?case by simp
next
  case (Cons day days)
  obtain rain lai petcrop petsoil where day: "day = (rain, lai, petcrop, petsoil)"
    by (cases day) auto
  from daily_water_balance_returns [OF Cons.prems] obtain m1 where
    "daily_water_balance m rain lai petcrop petsoil = Inr m1" "ready m1"
    by blast
  with Cons.IH [of m1] show ?case by (simp add: day)
qed

lemma run_days_frame:
  assumes "run_days m days = Inr m'"
  shows "map static_part (layers m') = map static_part (layers m)
       \<and> numintervals m' = numintervals m \<and> has_watertable m' = has_watertable m"
  using assms
proof (induction days arbitrary: m)
  case Nil
  then show ?case by simp
next
  case (Cons day days)
  obtain rain lai petcrop petsoil where day: "day = (rain, lai, petcrop, petsoil)"
    by (cases day) auto
  from Cons.prems obtain m1 where
    s: "daily_water_balance m rain lai petcrop petsoil = Inr m1" and
    r: "run_days m1 days = Inr m'"
    by (auto simp: day andthen_eq_Inr)
  show ?case
    using Cons.IH [OF r] daily_water_balance_frame [OF s] by simp
qed

section \<open>Layer initialization and the constructor\<close>

lemma special_code_cong:
  "sat a = sat b \<Longrightarrow> fc a = fc b \<Longrightarrow> pwp a = pwp b \<Longrightarrow> special_code a v = special_code b v"
  by (simp add: special_code_def)

lemma initialize_layer_D:
  assumes "initialize_layer accdepth prv self = Inr (l, acc')"
  defines "s \<equiv> sand (texture self) / 100" and "c \<equiv> clay (texture self) / 100"
  defines "theta1500 \<equiv> theta1500_of s c (om (texture self))"
    and "theta33 \<equiv> theta33_of s c (om (texture self))"
    and "theta0 \<equiv> theta0_of s c (om (texture self))"
  shows "0 < theta33" "0 < theta1500" "theta33 \<noteq> theta1500"
    "thick l = thick self" "texture l = texture self"
    "accthick l = thick self + (case prv of Some p \<Rightarrow> accthick p | None \<Rightarrow> 0)"
    "depth l = accdepth + 0.5 * ((case prv of Some p \<Rightarrow> thick p | None \<Rightarrow> 0) + thick self)"
    "acc' = depth l"
    "sat (swc l) = 2.225 * theta0 * (1 - theta0)"
    "fc (swc l) = 1.605 * theta33 * (1 - theta33)"
    "pwp (swc l) = 1.528 * theta1500 * (1 - theta1500)"
    "psd (swc l) = 1 / ((ln 1500 - ln 33) / (ln theta33 - ln theta1500))"
    "porosity (swc l) = sat (swc l)"
    "airentry (swc l) = airentry_of s c (theta0 - theta33)"
    "vwc l = (if vwc self < 0 then special_code (swc l) (- vwc self) else vwc self)"
    "wc l = (if vwc self < 0 then vwc l * thick self * 1000 else wc self)"
    "py_pow (theta0 - theta33) (3 - psd (swc l)) = Inr (ksat l * 1000 / (1930 * 24))"
proof -
  from assms(1) obtain l33 l1500 b psdnew p l0 where
    a: "py_log theta33 = Inr l33" "py_log theta1500 = Inr l1500"
       "py_div (ln 1500 - ln 33) (l33 - l1500) = Inr b" "py_div 1 b = Inr psdnew"
       "py_pow (theta0 - theta33) (3 - psdnew) = Inr p" and
    u: "update_heads_k l0 = Inr l" and
    l0: "l0 = self\<lparr>accthick := thick self + (case prv of Some p \<Rightarrow> accthick p | None \<Rightarrow> 0),
               depth := accdepth + 0.5 * ((case prv of Some p \<Rightarrow> thick p | None \<Rightarrow> 0) + thick self),
               swc := \<lparr>sat = 2.225 * theta0 * (1 - theta0),
                    fc = 1.605 * theta33 * (1 - theta33),
                    pwp = 1.528 * theta1500 * (1 - theta1500),
                    psd = psdnew,
                    porosity = 2.225 * theta0 * (1 - theta0),
                    airentry = airentry_of s c (theta0 - theta33)\<rparr>,
               ksat := 1930 * p * 24 / 1000,
               vwc := (if vwc self < 0 then special_code \<lparr>sat = 2.225 * theta0 * (1 - theta0),
                    fc = 1.605 * theta33 * (1 - theta33),
                    pwp = 1.528 * theta1500 * (1 - theta1500),
                    psd = psdnew,
                    porosity = 2.225 * theta0 * (1 - theta0),
                    airentry = airentry_of s c (theta0 - theta33)\<rparr> (- vwc self) else vwc self),
               wc := (if vwc self < 0 then (if vwc self < 0 then special_code \<lparr>sat = 2.225 * theta0 * (1 - theta0),
                    fc = 1.605 * theta33 * (1 - theta33),
                    pwp = 1.528 * theta1500 * (1 - theta1500),
                    psd = psdnew,
                    porosity = 2.225 * theta0 * (1 - theta0),
                    airentry = airentry_of s c (theta0 - theta33)\<rparr> (- vwc self) else vwc self) * thick self * 1000 else wc self)\<rparr>" and
    acc': "acc' = accdepth + 0.5 * ((case prv of Some p \<Rightarrow> thick p | None \<Rightarrow> 0) + thick self)"
    unfolding initialize_layer_def Let_def andthen_eq_Inr
      s_def c_def theta1500_def theta33_def theta0_def
    by blast
  note fr = update_heads_k_frame [OF u]
  have eqs: "thick l = thick l0" "texture l = texture l0" "accthick l = accthick l0"
    "depth l = depth l0" "swc l = swc l0" "vwc l = vwc l0" "wc l = wc l0" "ksat l = ksat l0"
    by (subst fr, simp)+
  have b: "l33 = ln theta33" "l1500 = ln theta1500" "b = (ln 1500 - ln 33) / (ln theta33 - ln theta1500)"
    "psdnew = 1 / b" "ln theta33 - ln theta1500 \<noteq> 0"
    using a by (auto simp: py_log_eq_Inr py_div_eq_Inr)
  show "0 < theta33" "0 < theta1500" using a by (auto simp: py_log_eq_Inr)
  then show "theta33 \<noteq> theta1500" using b(5) by auto
  show "thick l = thick self" "texture l = texture self"
    "accthick l = thick self + (case prv of Some p \<Rightarrow> accthick p | None \<Rightarrow> 0)"
    "depth l = accdepth + 0.5 * ((case prv of Some p \<Rightarrow> thick p | None \<Rightarrow> 0) + thick self)"
    "sat (swc l) = 2.225 * theta0 * (1 - theta0)"
    "fc (swc l) = 1.605 * theta33 * (1 - theta33)"
    "pwp (swc l) = 1.528 * theta1500 * (1 - theta1500)"
    "porosity (swc l) = sat (swc l)"
    "airentry (swc l) = airentry_of s c (theta0 - theta33)"
    unfolding eqs by (simp_all add: l0)
  then show "acc' = depth l" using acc' by simp
  show "psd (swc l) = 1 / ((ln 1500 - ln 33) / (ln theta33 - ln theta1500))"
    unfolding eqs using b by (simp add: l0)
  show "vwc l = (if vwc self < 0 then special_code (swc l) (- vwc self) else vwc self)"
    unfolding eqs by (simp add: l0)
  then show "wc l = (if vwc self < 0 then vwc l * thick self * 1000 else wc self)"
    unfolding eqs by (simp add: l0)
  have "psd (swc l) = psdnew" unfolding eqs by (simp add: l0)
  moreover have "ksat l * 1000 / (1930 * 24) = p" unfolding eqs by (simp add: l0)
  ultimately show "py_pow (theta0 - theta33) (3 - psd (swc l)) = Inr (ksat l * 1000 / (1930 * 24))"
    using a(5) by simp
qed


lemma initialize_layer_returns:
  assumes "initializable self"
  shows "\<exists>l. initialize_layer accdepth prv self
               = Inr (l, accdepth + 0.5 * ((case prv of Some p \<Rightarrow> thick p | None \<Rightarrow> 0)
                                          + thick self))
           \<and> 0 < vwc l \<and> 0 < sat (swc l) \<and> psd (swc l) \<noteq> 0
           \<and> sat (swc l) \<noteq> fc (swc l) \<and> 0 < ksat l"
proof -
  define s where "s = sand (texture self) / 100"
  define c where "c = clay (texture self) / 100"
  define theta1500 where "theta1500 = theta1500_of s c (om (texture self))"
  define theta33 where "theta33 = theta33_of s c (om (texture self))"
  define theta0 where "theta0 = theta0_of s c (om (texture self))"
  define b where "b = (ln 1500 - ln 33) / (ln theta33 - ln theta1500)"
  define w where "w = \<lparr>sat = 2.225 * theta0 * (1 - theta0),
                    fc = 1.605 * theta33 * (1 - theta33),
                    pwp = 1.528 * theta1500 * (1 - theta1500),
                    psd = 1 / b,
                    porosity = 2.225 * theta0 * (1 - theta0),
                    airentry = airentry_of s c (theta0 - theta33)\<rparr>"
  define vnew where "vnew = (if vwc self < 0 then special_code w (- vwc self) else vwc self)"
  define l0 where "l0 = self\<lparr>accthick := thick self + (case prv of Some p \<Rightarrow> accthick p | None \<Rightarrow> 0),
               depth := accdepth + 0.5 * ((case prv of Some p \<Rightarrow> thick p | None \<Rightarrow> 0) + thick self),
               swc := w,
               ksat := 1930 * ((theta0 - theta33) powr (3 - 1 / b)) * 24 / 1000,
               vwc := vnew,
               wc := (if vwc self < 0 then vnew * thick self * 1000 else wc self)\<rparr>"
  have i: "0 < theta1500" "0 < theta33" "theta33 \<noteq> theta1500" "theta33 < theta0"
    "0 < 2.225 * theta0 * (1 - theta0)"
    "2.225 * theta0 * (1 - theta0) \<noteq> 1.605 * theta33 * (1 - theta33)"
    using assms
    unfolding initializable_def Let_def s_def c_def theta1500_def theta33_def theta0_def
    by simp_all
  have sc: "special_code \<lparr>sat = 2.225 * theta0 * (1 - theta0), fc = 1.605 * theta33 * (1 - theta33),
               pwp = 1.528 * theta1500 * (1 - theta1500), psd = 0,
               porosity = 2.225 * theta0 * (1 - theta0), airentry = 0\<rparr> (- vwc self)
            = special_code w (- vwc self)"
    by (rule special_code_cong) (simp_all add: w_def)
  have "0 < (if vwc self < 0
             then special_code \<lparr>sat = 2.225 * theta0 * (1 - theta0),
               fc = 1.605 * theta33 * (1 - theta33),
               pwp = 1.528 * theta1500 * (1 - theta1500), psd = 0,
               porosity = 2.225 * theta0 * (1 - theta0), airentry = 0\<rparr> (- vwc self)
             else vwc self)"
    using assms
    unfolding initializable_def Let_def s_def c_def theta1500_def theta33_def theta0_def
    by blast
  then have v: "0 < vnew" unfolding vnew_def sc .
  have lnne: "ln theta33 - ln theta1500 \<noteq> 0" using i(1-3) by simp
  have "ln (1500::real) \<noteq> ln 33" by simp
  then have bne: "b \<noteq> 0" using lnne by (simp add: b_def)
  have awc: "0 < theta0 - theta33" using i(4) by simp
  have g: "0 < vwc l0" "0 < sat (swc l0)" "psd (swc l0) \<noteq> 0" "sat (swc l0) \<noteq> fc (swc l0)"
    "0 < ksat l0"
    using v i(5,6) bne awc by (simp_all add: l0_def w_def)
  obtain l where u: "update_heads_k l0 = Inr l"
    using update_heads_k_returns [OF g(1-4)] by blast
  note fr = update_heads_k_frame [OF u]
  have eqs: "swc l = swc l0" "vwc l = vwc l0" "ksat l = ksat l0"
    by (subst fr, simp)+
  have e1: "py_log theta33 = Inr (ln theta33)" using i(2) by simp
  have e2: "py_log theta1500 = Inr (ln theta1500)" using i(1) by simp
  have e3: "py_div (ln 1500 - ln 33) (ln theta33 - ln theta1500) = Inr b"
    using lnne by (simp add: b_def)
  have e4: "py_div 1 b = Inr (1 / b)" using bne by simp
  have e5: "py_pow (theta0 - theta33) (3 - 1 / b) = Inr ((theta0 - theta33) powr (3 - 1 / b))"
    using awc by simp
  note u' = u [unfolded l0_def vnew_def w_def]
  have "initialize_layer accdepth prv self
          = Inr (l, accdepth + 0.5 * ((case prv of Some p \<Rightarrow> thick p | None \<Rightarrow> 0) + thick self))"
    unfolding initialize_layer_def Let_def
    unfolding s_def [symmetric] c_def [symmetric]
    unfolding theta1500_def [symmetric] theta33_def [symmetric] theta0_def [symmetric]
    unfolding e1 e2 andthen_Inr e3 e4 e5 u'
    by (rule refl)
  moreover have "0 < vwc l" "0 < sat (swc l)" "psd (swc l) \<noteq> 0"
    "sat (swc l) \<noteq> fc (swc l)" "0 < ksat l"
    using g by (simp_all add: eqs)
  ultimately show ?thesis by blast
qed

section \<open>The constructor\<close>

lemma read_layers_upt:
  "read_layers recs [i..<n] =
     (if n \<le> length recs \<or> n \<le> i then Inr (map (\<lambda>j. read_layer (recs ! j)) [i..<n])
      else Inl IndexError)"
proof (induction "n - i" arbitrary: i)
  case 0
  then show ?case by simp
next
  case (Suc d)
  then have lt: "i < n" and d: "d = n - Suc i" by simp_all
  show ?case
    using Suc.hyps(1) [OF d] lt
    by (auto simp: upt_conv_Cons py_get_def)
qed

lemma read_layers_IndexError:
  "length recs < n \<Longrightarrow> read_layers recs [0..<n] = Inl IndexError"
  by (simp add: read_layers_upt)

lemma read_layers_Inr:
  assumes "n \<le> length recs"
  shows "read_layers recs [0..<n] = Inr (map read_layer (take n recs))"
proof -
  have "map (\<lambda>j. read_layer (recs ! j)) [0..<n] = map read_layer (take n recs)"
    using assms by (intro nth_equalityI) simp_all
  then show ?thesis using assms by (simp add: read_layers_upt)
qed

lemma init_layers_D:
  assumes "init_layers accdepth prv ls = Inr (ls', acc')"
  shows "length ls' = length ls \<and> map thick ls' = map thick ls
       \<and> (ls \<noteq> [] \<longrightarrow>
            accthick (last ls')
              = (case prv of Some p \<Rightarrow> accthick p | None \<Rightarrow> 0) + sum_list (map thick ls))"
  using assms
proof (induction ls arbitrary: accdepth prv ls' acc')
  case Nil
  then show ?case by simp
next
  case (Cons l ls)
  from Cons.prems obtain lnew acc1 lsnew where
    s: "initialize_layer accdepth prv l = Inr (lnew, acc1)" and
    r: "init_layers acc1 (Some lnew) ls = Inr (lsnew, acc')" and
    e: "ls' = lnew # lsnew"
    by (auto simp: andthen_eq_Inr)
  note d = initialize_layer_D(4,6) [OF s]
  note IH = Cons.IH [OF r]
  show ?case
  proof (cases "ls = []")
    case True
    then have "lsnew = []" using IH by simp
    then show ?thesis using d e True by simp
  next
    case False
    then have "lsnew \<noteq> []" using IH by auto
    then show ?thesis using d e IH False by simp
  qed
qed

lemma init_layers_returns:
  assumes "list_all initializable ls"
  shows "\<exists>ls' acc'. init_layers accdepth prv ls = Inr (ls', acc')
           \<and> list_all (\<lambda>l. 0 < vwc l \<and> 0 < sat (swc l) \<and> psd (swc l) \<noteq> 0
                           \<and> sat (swc l) \<noteq> fc (swc l) \<and> 0 < ksat l) ls'"
  using assms
proof (induction ls arbitrary: accdepth prv)
  case Nil
  then show ?case by simp
next
  case (Cons l ls)
  then have i: "initializable l" and r: "list_all initializable ls" by simp_all
  from initialize_layer_returns [OF i, of accdepth prv] obtain lnew acc1 where
    s: "initialize_layer accdepth prv l = Inr (lnew, acc1)" and
    g: "0 < vwc lnew \<and> 0 < sat (swc lnew) \<and> psd (swc lnew) \<noteq> 0
        \<and> sat (swc lnew) \<noteq> fc (swc lnew) \<and> 0 < ksat lnew"
    by blast
  from Cons.IH [OF r, of acc1 "Some lnew"] obtain lsnew acc2 where
    "init_layers acc1 (Some lnew) ls = Inr (lsnew, acc2)"
    "list_all (\<lambda>l. 0 < vwc l \<and> 0 < sat (swc l) \<and> psd (swc l) \<noteq> 0
                           \<and> sat (swc l) \<noteq> fc (swc l) \<and> 0 < ksat l) lsnew"
    by blast
  then show ?case using s g by simp
qed

text \<open>With positive thicknesses the depths of the layers increase strictly.\<close>

lemma init_layers_depths:
  assumes "init_layers accdepth prv ls = Inr (ls', acc')"
    and "list_all (\<lambda>l. 0 < thick l) ls"
    and "case prv of Some p \<Rightarrow> 0 < thick p | None \<Rightarrow> True"
  shows "distinct_adj (map depth ls') \<and> (ls' \<noteq> [] \<longrightarrow> accdepth < depth (hd ls'))"
  using assms
proof (induction ls arbitrary: accdepth prv ls' acc')
  case Nil
  then show ?case by simp
next
  case (Cons l ls)
  from Cons.prems(1) obtain lnew acc1 lsnew where
    s: "initialize_layer accdepth prv l = Inr (lnew, acc1)" and
    r: "init_layers acc1 (Some lnew) ls = Inr (lsnew, acc')" and
    e: "ls' = lnew # lsnew"
    by (auto simp: andthen_eq_Inr)
  note d = initialize_layer_D(4,7,8) [OF s]
  have tl: "0 < thick l" and tls: "list_all (\<lambda>l. 0 < thick l) ls"
    using Cons.prems(2) by simp_all
  have "0 \<le> (case prv of Some p \<Rightarrow> thick p | None \<Rightarrow> 0)"
    using Cons.prems(3) by (cases prv) simp_all
  then have dl: "accdepth < depth lnew" using d(2) tl by simp
  have "case Some lnew of Some p \<Rightarrow> 0 < thick p | None \<Rightarrow> True"
    using d(1) tl by simp
  from Cons.IH [OF r tls this]
  have IH: "distinct_adj (map depth lsnew)" "lsnew \<noteq> [] \<longrightarrow> depth lnew < depth (hd lsnew)"
    using d(3) by simp_all
  have "distinct_adj (map depth (lnew # lsnew))"
    using IH by (cases lsnew) simp_all
  then show ?case using e dl by simp
qed


lemma SoilWater_init_IndexError:
  assumes "int (length (ini_layers ini)) < ini_numlayers ini"
  shows "SoilWater_init accdepth ini = Inl IndexError"
proof -
  have "length (ini_layers ini) < nat (ini_numlayers ini)" using assms by simp
  then show ?thesis by (simp add: SoilWater_init_def read_layers_IndexError)
qed

lemma reduce_et_layers: "reduce_et m = Inr ws \<Longrightarrow> layers m \<noteq> []"
  by (auto simp: reduce_et_def andthen_eq_Inr py_get_eq_Inr)

lemma rootzone_water_rootdepth: "rootzone_water m = Inr rz \<Longrightarrow> rootdepth m \<noteq> 0"
  by (auto simp: rootzone_water_def andthen_eq_Inr py_div_eq_Inr split: prod.splits)

lemma SoilWater_init_D:
  assumes "SoilWater_init accdepth ini = Inr (m, acc')"
  shows "nat (ini_numlayers ini) \<le> length (ini_layers ini)"
    "init_layers accdepth None
       (map read_layer (take (nat (ini_numlayers ini)) (ini_layers ini))) = Inr (layers m, acc')"
    "layers m \<noteq> []"
    "numintervals m = ini_numintervals ini" "rootdepth m = ini_rootdepth ini"
    "has_watertable m = ini_has_watertable ini" "length (pf m) = length (layers m)"
    "rootdepth m \<noteq> 0"
proof -
  from assms obtain ls0 ls rz ws where
    1: "read_layers (ini_layers ini) [0..<nat (ini_numlayers ini)] = Inr ls0" and
    2: "init_layers accdepth None ls0 = Inr (ls, acc')" and
    3: "rootzone_water \<lparr>numintervals = ini_numintervals ini, rootdepth = ini_rootdepth ini,
                  has_watertable = ini_has_watertable ini, layers = ls,
                  pf = replicate (length ls) Fluxes_zero, prz = RootZone_zero,
                  rootwater = RootZone_zero, waterstresses = \<lparr>crop = 0, soil = 0\<rparr>,
                  netrain = 0, aet = \<lparr>crop = 0, soil = 0\<rparr>\<rparr> = Inr rz" and
    4: "reduce_et \<lparr>numintervals = ini_numintervals ini, rootdepth = ini_rootdepth ini,
                  has_watertable = ini_has_watertable ini, layers = ls,
                  pf = replicate (length ls) Fluxes_zero, prz = rz,
                  rootwater = RootZone_zero, waterstresses = \<lparr>crop = 0, soil = 0\<rparr>,
                  netrain = 0, aet = \<lparr>crop = 0, soil = 0\<rparr>\<rparr> = Inr ws" and
    m: "m = \<lparr>numintervals = ini_numintervals ini, rootdepth = ini_rootdepth ini,
                  has_watertable = ini_has_watertable ini, layers = ls,
                  pf = replicate (length ls) Fluxes_zero, prz = rz,
                  rootwater = RootZone_zero, waterstresses = ws,
                  netrain = 0, aet = \<lparr>crop = 0, soil = 0\<rparr>\<rparr>"
    by (auto simp: SoilWater_init_def andthen_eq_Inr Let_def)
  show n: "nat (ini_numlayers ini) \<le> length (ini_layers ini)"
    using 1 by (auto simp: read_layers_upt split: if_splits)
  then have "ls0 = map read_layer (take (nat (ini_numlayers ini)) (ini_layers ini))"
    using 1 by (simp add: read_layers_Inr)
  then show "init_layers accdepth None
       (map read_layer (take (nat (ini_numlayers ini)) (ini_layers ini))) = Inr (layers m, acc')"
    using 2 by (simp add: m)
  show "layers m \<noteq> []" using reduce_et_layers [OF 4] by (simp add: m)
  show "numintervals m = ini_numintervals ini" "rootdepth m = ini_rootdepth ini"
    "has_watertable m = ini_has_watertable ini" "length (pf m) = length (layers m)"
    by (simp_all add: m)
  show "rootdepth m \<noteq> 0" using rootzone_water_rootdepth [OF 3] by (simp add: m)
qed

lemma SoilWater_init_thick:
  assumes "SoilWater_init accdepth ini = Inr (m, acc')"
  shows "length (layers m) = nat (ini_numlayers ini)"
    "map thick (layers m) = map ini_thick (take (nat (ini_numlayers ini)) (ini_layers ini))"
    "accthick (last (layers m)) = sum_list (map thick (layers m))"
proof -
  note d = SoilWater_init_D [OF assms]
  note i = init_layers_D [OF d(2)]
  show "length (layers m) = nat (ini_numlayers ini)" using i d(1) by simp
  have "map thick (map read_layer (take (nat (ini_numlayers ini)) (ini_layers ini)))
        = map ini_thick (take (nat (ini_numlayers ini)) (ini_layers ini))"
    by (simp add: read_layer_def SoilLayer_new_def comp_def)
  then show t: "map thick (layers m) = map ini_thick (take (nat (ini_numlayers ini)) (ini_layers ini))"
    using i by simp
  have "map read_layer (take (nat (ini_numlayers ini)) (ini_layers ini)) \<noteq> []"
    using i d(3) by auto
  then show "accthick (last (layers m)) = sum_list (map thick (layers m))"
    using i by simp
qed

lemma SoilWater_init_returns:
  assumes "0 < ini_numlayers ini" "nat (ini_numlayers ini) \<le> length (ini_layers ini)"
    and "ini_rootdepth ini \<noteq> 0"
    and "list_all initializable
           (map read_layer (take (nat (ini_numlayers ini)) (ini_layers ini)))"
  shows "\<exists>m acc'. SoilWater_init accdepth ini = Inr (m, acc')
           \<and> list_all (\<lambda>l. 0 < vwc l \<and> 0 < sat (swc l) \<and> psd (swc l) \<noteq> 0
                           \<and> sat (swc l) \<noteq> fc (swc l) \<and> 0 < ksat l) (layers m)"
proof -
  define ls0 where "ls0 = map read_layer (take (nat (ini_numlayers ini)) (ini_layers ini))"
  have 1: "read_layers (ini_layers ini) [0..<nat (ini_numlayers ini)] = Inr ls0"
    using assms(2) by (simp add: read_layers_Inr ls0_def)
  from init_layers_returns [OF assms(4), of accdepth None] obtain ls acc1 where
    2: "init_layers accdepth None ls0 = Inr (ls, acc1)" and
    g: "list_all (\<lambda>l. 0 < vwc l \<and> 0 < sat (swc l) \<and> psd (swc l) \<noteq> 0
                           \<and> sat (swc l) \<noteq> fc (swc l) \<and> 0 < ksat l) ls"
    unfolding ls0_def by blast
  have "length ls = length ls0" using init_layers_D [OF 2] by simp
  then have ne: "ls \<noteq> []" using assms(1,2) by (auto simp: ls0_def)
  define self0 where "self0 = \<lparr>numintervals = ini_numintervals ini, rootdepth = ini_rootdepth ini,
                  has_watertable = ini_has_watertable ini, layers = ls,
                  pf = replicate (length ls) Fluxes_zero, prz = RootZone_zero,
                  rootwater = RootZone_zero, waterstresses = \<lparr>crop = 0, soil = 0\<rparr>,
                  netrain = 0, aet = \<lparr>crop = 0, soil = 0\<rparr>\<rparr>"
  have "rootdepth self0 \<noteq> 0" using assms(3) by (simp add: self0_def)
  then obtain rz where 3: "rootzone_water self0 = Inr rz"
    using rootzone_water_returns by blast
  have g0: "0 < vwc (ls ! 0)" "0 < sat (swc (ls ! 0))"
    using g ne by (simp_all add: list_all_length)
  have "\<exists>ws. reduce_et (self0\<lparr>prz := rz\<rparr>) = Inr ws"
    using ne g0 by (intro reduce_et_returns) (simp_all add: self0_def)
  then obtain ws where 4: "reduce_et (self0\<lparr>prz := rz\<rparr>) = Inr ws" by blast
  have "SoilWater_init accdepth ini = Inr (self0\<lparr>prz := rz, waterstresses := ws\<rparr>, acc1)"
    unfolding SoilWater_init_def Let_def 1 andthen_Inr 2 prod.case
    unfolding self0_def [symmetric] 3 andthen_Inr 4 by (rule refl)
  moreover have "layers (self0\<lparr>prz := rz, waterstresses := ws\<rparr>) = ls"
    by (simp add: self0_def)
  ultimately show ?thesis using g by auto
qed


lemma sum_list_pos_real:
  fixes xs :: "real list"
  assumes "xs \<noteq> []" "list_all (\<lambda>x. 0 < x) xs"
  shows "0 < sum_list xs"
  using assms
proof (induction xs)
  case Nil
  then show ?case by simp
next
  case (Cons x xs)
  show ?case
  proof (cases "xs = []")
    case True
    then show ?thesis using Cons.prems by simp
  next
    case False
    then have "0 < sum_list xs" using Cons by simp
    then show ?thesis using Cons.prems by simp
  qed
qed

text \<open>A payload with positive thicknesses, a positive root depth, at least one
  sub-interval and no water table gives an object on which the daily step is defined.\<close>

lemma SoilWater_init_ready:
  assumes "SoilWater_init accdepth ini = Inr (m, acc')"
    and "list_all initializable
           (map read_layer (take (nat (ini_numlayers ini)) (ini_layers ini)))"
    and "list_all (\<lambda>r. 0 < ini_thick r) (take (nat (ini_numlayers ini)) (ini_layers ini))"
    and "0 < ini_rootdepth ini" "0 < ini_numintervals ini" "\<not> ini_has_watertable ini"
  shows "ready m"
proof -
  define ls0 where "ls0 = map read_layer (take (nat (ini_numlayers ini)) (ini_layers ini))"
  note d = SoilWater_init_D [OF assms(1), folded ls0_def]
  note th = SoilWater_init_thick [OF assms(1)]
  from init_layers_returns [OF assms(2), of accdepth None] d(2)
  have g: "list_all (\<lambda>l. 0 < vwc l \<and> 0 < sat (swc l) \<and> psd (swc l) \<noteq> 0
                           \<and> sat (swc l) \<noteq> fc (swc l) \<and> 0 < ksat l) (layers m)"
    unfolding ls0_def [symmetric] by auto
  have tpos: "list_all (\<lambda>x. 0 < x) (map thick (layers m))"
    using assms(3) unfolding th(2) by (simp add: list_all_iff)
  have t0: "list_all (\<lambda>l. 0 < thick l) ls0"
    using assms(3) by (simp add: ls0_def list_all_iff read_layer_def SoilLayer_new_def)
  have good: "list_all good_layer (layers m)"
    unfolding list_all_length
  proof (intro allI impI)
    fix j assume j: "j < length (layers m)"
    then have "0 < map thick (layers m) ! j"
      using tpos unfolding list_all_length by simp
    then have "thick (layers m ! j) \<noteq> 0" using j by simp
    then show "good_layer (layers m ! j)"
      using g j by (simp add: list_all_length good_layer_def)
  qed
  have dep: "distinct_adj (map depth (layers m))"
    using init_layers_depths [OF d(2) t0] by simp
  have "map thick (layers m) \<noteq> []" using d(3) by simp
  then have "0 < sum_list (map thick (layers m))"
    using sum_list_pos_real tpos by blast
  then have acc: "0 < accthick (last (layers m))" using th(3) by simp
  show ?thesis
    using d(3,4,5,6,7) acc good dep assms(4,5,6) by (simp add: ready_def)
qed

section \<open>The example payloads\<close>

lemma loam_theta:
  "theta1500_of (2 / 5) (3 / 10) 2 = 474001 / 2500000"
  "theta33_of (2 / 5) (3 / 10) 2 = 798778603747 / 2500000000000"
  "theta0_of (2 / 5) (3 / 10) 2 = 1125503403747 / 2500000000000"
  by (simp_all add: theta1500_of_def theta33_of_def theta_s33_of_def theta0_of_def Let_def
      power2_eq_square)

lemma organic_silt_theta:
  "theta1500_of 0 0 (61 / 5) = 24697 / 250000"
  "theta33_of 0 0 (61 / 5) = 3105961587 / 6250000000"
  "theta0_of 0 0 (61 / 5) = 6247901587 / 6250000000"
  by (simp_all add: theta1500_of_def theta33_of_def theta_s33_of_def theta0_of_def Let_def
      power2_eq_square)

lemma initializable_loam:
  "initializable (read_layer \<lparr>ini_thick = th, ini_vwc = 1 / 4, ini_texture = loam\<rparr>)"
  "initializable (read_layer \<lparr>ini_thick = th, ini_vwc = - (3 / 2), ini_texture = loam\<rparr>)"
  "initializable (read_layer \<lparr>ini_thick = th, ini_vwc = - 1, ini_texture = loam\<rparr>)"
  by (simp_all add: initializable_def read_layer_def SoilLayer_new_def loam_def Let_def
      loam_theta special_code_def)

lemma initializable_organic_silt:
  "initializable (read_layer \<lparr>ini_thick = th, ini_vwc = 3 / 10, ini_texture = organic_silt\<rparr>)"
  by (simp add: initializable_def read_layer_def SoilLayer_new_def organic_silt_def Let_def
      organic_silt_theta special_code_def)

section \<open>Bounds of the regressions on a range of textures\<close>

























section \<open>The clipping invariant\<close>

lemma projr_eq: "\<exists>x. r = Inr x \<Longrightarrow> r = Inr (projr r)"
  by auto

lemma projr_pair_eq: "\<exists>x y. r = Inr (x, y) \<Longrightarrow> r = Inr (fst (projr r), snd (projr r))"
  by auto

lemma example_model_init:
  "SoilWater_init 0 ini_example = Inr (example_model, snd (projr (SoilWater_init 0 ini_example)))"
  unfolding example_model_def
  by (rule projr_pair_eq, insert SoilWater_init_returns [of ini_example 0])
     (auto simp: ini_example_def initializable_loam)

lemma example_model_ready: "ready example_model"
  by (rule SoilWater_init_ready [OF example_model_init])
     (simp_all add: ini_example_def initializable_loam)

lemma example_model_layers: "length (layers example_model) = 2"
  using SoilWater_init_thick(1) [OF example_model_init] by (simp add: ini_example_def)

lemma example_step_eq:
  "calc_water_fluxes [Fluxes_zero, Fluxes_zero] example_model 3 2
     = Inr (fst example_step, snd example_step)"
  unfolding example_step_def
  by (rule projr_pair_eq, insert calc_water_fluxes_returns [OF example_model_ready,
        of "[Fluxes_zero, Fluxes_zero]" 3 2])
     (auto simp: example_model_layers)

lemma example_step_layers: "length (layers (snd example_step)) = 2"
  using calc_water_fluxes_frame(6) [OF example_step_eq] example_model_layers by simp

lemma organic_model_init:
  "SoilWater_init 0 ini_organic = Inr (organic_model, snd (projr (SoilWater_init 0 ini_organic)))"
  unfolding organic_model_def
  by (rule projr_pair_eq, insert SoilWater_init_returns [of ini_organic 0])
     (auto simp: ini_organic_def initializable_organic_silt)

lemma organic_model_ready: "ready organic_model"
  by (rule SoilWater_init_ready [OF organic_model_init])
     (simp_all add: ini_organic_def initializable_organic_silt)

lemma organic_model_layers: "length (layers organic_model) = 1"
  using SoilWater_init_thick(1) [OF organic_model_init] by (simp add: ini_organic_def)

lemma organic_model_sat: "sat (swc (layers organic_model ! 0)) = 2.225 * (6247901587 / 6250000000) * (1 - 6247901587 / 6250000000)"
proof -
  from SoilWater_init_D(2) [OF organic_model_init] obtain l acc1 where
    i: "initialize_layer 0 None (read_layer \<lparr>ini_thick = 1, ini_vwc = 0.3, ini_texture = organic_silt\<rparr>) = Inr (l, acc1)"
    and l: "layers organic_model = [l]"
    by (auto simp: ini_organic_def andthen_eq_Inr)
  show ?thesis
    using initialize_layer_D(9) [OF i]
    by (simp add: l read_layer_def SoilLayer_new_def organic_silt_def organic_silt_theta)
qed

lemma organic_step_eq:
  "calc_water_fluxes [Fluxes_zero] organic_model 3 2 = Inr (fst organic_step, snd organic_step)"
  unfolding organic_step_def
  by (rule projr_pair_eq, insert calc_water_fluxes_returns [OF organic_model_ready,
        of "[Fluxes_zero]" 3 2])
     (auto simp: organic_model_layers)

text \<open>
  C1 (amended). After a sub-interval of the flux computation every layer holds a
  volumetric water content of at least 0.005 and at most the larger of 0.005 and its
  saturation; so it is at most the saturation for every layer whose saturation is not
  below the dry floor 0.005.
\<close>

theorem clipping_invariant:
  assumes "calc_water_fluxes cf m petcrop petsoil = Inr (cf', m')"
  shows "\<forall>l \<in> set (layers m').
           0.005 \<le> vwc l \<and> vwc l \<le> max 0.005 (sat (swc l))
           \<and> (0.005 \<le> sat (swc l) \<longrightarrow> vwc l \<le> sat (swc l))"
proof
  fix l assume "l \<in> set (layers m')"
  then obtain j where j: "j < length (layers m')" and l: "l = layers m' ! j"
    by (auto simp: in_set_conv_nth)
  from calc_water_fluxes_clipped [OF assms j]
  show "0.005 \<le> vwc l \<and> vwc l \<le> max 0.005 (sat (swc l))
           \<and> (0.005 \<le> sat (swc l) \<longrightarrow> vwc l \<le> sat (swc l))"
    unfolding l by auto
qed

theorem clipping_invariant_witness:
  "calc_water_fluxes [Fluxes_zero, Fluxes_zero] example_model 3 2
     = Inr (fst example_step, snd example_step)
   \<and> 0.005 \<le> vwc (layers (snd example_step) ! 1)
   \<and> vwc (layers (snd example_step) ! 1) \<le> max 0.005 (sat (swc (layers (snd example_step) ! 1)))"
proof -
  have "layers (snd example_step) ! 1 \<in> set (layers (snd example_step))"
    using example_step_layers by simp
  then show ?thesis
    using clipping_invariant [OF example_step_eq] example_step_eq by blast
qed

theorem clipping_counterexample:
  "calc_water_fluxes [Fluxes_zero] organic_model 3 2 = Inr (fst organic_step, snd organic_step)
   \<and> sat (swc (layers (snd organic_step) ! 0)) < vwc (layers (snd organic_step) ! 0)"
proof -
  note f = calc_water_fluxes_frame [OF organic_step_eq]
  have j: "0 < length (layers (snd organic_step))"
    using f(6) organic_model_layers by simp
  have "static_part (layers (snd organic_step) ! 0) = static_part (layers organic_model ! 0)"
    using nth_map_eq [OF f(9)] organic_model_layers by simp
  then have "sat (swc (layers (snd organic_step) ! 0)) = sat (swc (layers organic_model ! 0))"
    using static_part_fields by metis
  then have "sat (swc (layers (snd organic_step) ! 0)) < 0.005"
    by (simp add: organic_model_sat)
  moreover have "0.005 \<le> vwc (layers (snd organic_step) ! 0)"
    using calc_water_fluxes_clipped [OF organic_step_eq j] by simp
  ultimately show ?thesis using organic_step_eq by simp
qed

section \<open>Transpiration shares\<close>

text \<open>
  C4. In one sub-interval the transpiration shares recorded for the layers are
  \<open>aet.crop * (psi(c_i) - psi(c_{i-1})) / 1000\<close> with \<open>psi = root_psi\<close>,
  \<open>c_i = min(1, accthick_i / rootdepth)\<close> and \<open>psi(c_{-1}) = 0\<close>, and their sum is at
  most the actual transpiration \<open>aet.crop / 1000\<close>, for a potential transpiration that
  is not negative (the contract of the daily step).
\<close>

theorem transpiration_shares_bounded:
  assumes "calc_water_fluxes cf m petcrop petsoil = Inr (cf', m')" and "0 \<le> petcrop"
  shows "(\<Sum>i<numlayers m'. t (pf m' ! i)) \<le> crop (aet m') / 1000
       \<and> (\<forall>i<numlayers m'.
            t (pf m' ! i) =
              crop (aet m') *
                (root_psi (min 1 (accthick (layers m' ! i) / rootdepth m'))
                 - (if i = 0 then 0
                    else root_psi (min 1 (accthick (layers m' ! (i - 1)) / rootdepth m'))))
                / 1000)"
proof -
  from calc_water_fluxes_D [OF assms(1)] obtain rz ws m3 where
    2: "reduce_et (m\<lparr>prz := rz\<rparr>) = Inr ws" and
    3: "influx_loop [0..<numlayers m] 0
              (m\<lparr>prz := rz, waterstresses := ws,
                 aet := \<lparr>crop = crop ws * petcrop, soil = soil ws * petsoil\<rparr>\<rparr>) = Inr m3" and
    4: "netflux_loop [0..<numlayers m] (cf, m3) = Inr (cf', m')"
    by blast
  define m2 where "m2 = m\<lparr>prz := rz, waterstresses := ws,
                 aet := \<lparr>crop = crop ws * petcrop, soil = soil ws * petsoil\<rparr>\<rparr>"
  note 3 = 3 [folded m2_def]
  define n where "n = numlayers m"
  have f3: "aet m3 = aet m2" "rootdepth m3 = rootdepth m2"
    "length (layers m3) = length (layers m2)" "length (pf m3) = length (pf m2)"
    "map static_part (layers m3) = map static_part (layers m2)"
    using influx_loop_frame [OF 3, of 0] by simp_all
  have f4: "aet m' = aet m3" "rootdepth m' = rootdepth m3"
    "length (layers m') = length (layers m3)" "map t (pf m') = map t (pf m3)"
    "map static_part (layers m') = map static_part (layers m3)"
    using netflux_loop_frame [OF 4, of 0] by simp_all
  have n': "numlayers m' = n"
    using f3 f4 by (simp add: numlayers_def n_def m2_def)
  have lpf: "n \<le> length (pf m3)"
  proof (cases n)
    case 0
    then show ?thesis by simp
  next
    case (Suc k)
    then have "k \<in> set [0..<numlayers m]" by (simp add: n_def)
    then have "k < length (pf m2)" using influx_loop_frame [OF 3, of k] by simp
    then show ?thesis using Suc f3 by simp
  qed
  have teq: "t (pf m' ! i) = t (pf m3 ! i)" if "i < n" for i
    using nth_map_eq [OF f4(4)] that lpf by simp
  have crop: "0 \<le> crop (aet m')"
    using reduce_et_crop [OF 2] assms(2) f3 f4 by (simp add: m2_def)
  have aet: "crop (aet m2) = crop (aet m')" "rootdepth m2 = rootdepth m'"
    using f3 f4 by simp_all
  from influx_loop_t_sum [OF 3] obtain q where
    q: "q \<le> 1" and
    s: "(\<Sum>j\<leftarrow>[0..<numlayers m]. t (pf m3 ! j)) = crop (aet m2) * (q - 0) / 1000"
    by auto
  have "(\<Sum>i<n. t (pf m' ! i)) = (\<Sum>i<n. t (pf m3 ! i))"
    using teq by simp
  also have "\<dots> = (\<Sum>j\<leftarrow>[0..<n]. t (pf m3 ! j))"
    by (simp add: interv_sum_list_conv_sum_set_nat atLeast0LessThan)
  also have "\<dots> = crop (aet m') * q / 1000"
    using s aet by (simp add: n_def)
  also have "\<dots> \<le> crop (aet m') / 1000"
    using q crop by (simp add: mult_left_le)
  finally have sum: "(\<Sum>i<numlayers m'. t (pf m' ! i)) \<le> crop (aet m') / 1000"
    by (simp add: n')
  have each: "t (pf m' ! i) =
              crop (aet m') *
                (root_psi (min 1 (accthick (layers m' ! i) / rootdepth m'))
                 - (if i = 0 then 0
                    else root_psi (min 1 (accthick (layers m' ! (i - 1)) / rootdepth m'))))
                / 1000" if i: "i < n" for i
  proof -
    have ln: "length (layers m2) = n" by (simp add: m2_def n_def numlayers_def)
    have acc: "accthick (layers m' ! j) = accthick (layers m2 ! j)" if "j < n" for j
    proof -
      have "static_part (layers m' ! j) = static_part (layers m3 ! j)"
        using nth_map_eq [OF f4(5)] that f3(3) ln by simp
      also have "\<dots> = static_part (layers m2 ! j)"
        using nth_map_eq [OF f3(5)] that ln by simp
      finally show ?thesis using static_part_fields by blast
    qed
    have i1: "i - 1 < n" using i by simp
    from influx_loop_t_each [OF 3 _ i [unfolded n_def]]
    show ?thesis
      unfolding teq [OF i] aet acc [OF i, symmetric] acc [OF i1, symmetric] by simp
  qed
  show ?thesis unfolding n' using sum [unfolded n'] each by blast
qed

theorem transpiration_shares_bounded_witness:
  "calc_water_fluxes [Fluxes_zero, Fluxes_zero] example_model 3 2
     = Inr (fst example_step, snd example_step)
   \<and> (0::real) \<le> 3
   \<and> t (pf (snd example_step) ! 0) + t (pf (snd example_step) ! 1)
       \<le> crop (aet (snd example_step)) / 1000"
proof -
  have le: "(0::real) \<le> 3" by simp
  have n: "numlayers (snd example_step) = 2"
    using example_step_layers by (simp add: numlayers_def)
  have "(\<Sum>i<(2::nat). t (pf (snd example_step) ! i))
             = t (pf (snd example_step) ! 0) + t (pf (snd example_step) ! 1)"
    by (simp add: numeral_2_eq_2)
  then have "t (pf (snd example_step) ! 0) + t (pf (snd example_step) ! 1)
       \<le> crop (aet (snd example_step)) / 1000"
    using transpiration_shares_bounded [OF example_step_eq le, THEN conjunct1]
    unfolding n by simp
  then show ?thesis using example_step_eq le by blast
qed

section \<open>Continuity of the fluxes\<close>

text \<open>Pass 1 replaces every layer it visits by the result of \<open>update_heads_k\<close> on it.\<close>

lemma influx_loop_updated:
  assumes "influx_loop [i..<n] p m = Inr m'" "i \<le> j" "j < n"
  shows "update_heads_k (layers m ! j) = Inr (layers m' ! j)"
  using assms
proof (induction "n - i" arbitrary: i p m)
  case 0
  then show ?case by simp
next
  case (Suc d)
  then have lt: "i < n" by simp
  with Suc.prems(1) obtain q1 m1 where
    s: "influx_step i p m = Inr (q1, m1)" and r: "influx_loop [Suc i..<n] q1 m1 = Inr m'"
    by (auto simp: upt_conv_Cons andthen_eq_Inr)
  from influx_step_D [OF s] obtain cur where
    il: "i < length (layers m)" and u: "update_heads_k (layers m ! i) = Inr cur" and
    l1: "layers m1 = (layers m)[i := cur]"
    by auto
  show ?case
  proof (cases "j = i")
    case True
    have "i \<notin> set [Suc i..<n]" by simp
    then have "layers m' ! i = layers m1 ! i" using influx_loop_frame [OF r] by blast
    then show ?thesis using u l1 il True by simp
  next
    case False
    then have le: "Suc i \<le> j" using Suc.prems(2) by simp
    have d: "d = n - Suc i" using Suc.hyps(2) by simp
    from Suc.hyps(1) [OF d r le Suc.prems(3)] show ?thesis
      using l1 False by simp
  qed
qed

text \<open>
  C7. After pass 2 of a sub-interval the recorded outflux of every layer that has a
  next layer is the recorded influx of that next layer. The recorded outflux of the last
  layer is the bound correction of its unsaturated conductivity \<open>k\<close> when there is no
  water table, and of the water-table influx term when there is one; \<open>cur\<close> is the last
  layer after the head and conductivity update of pass 1.
\<close>

theorem flux_continuity:
  assumes "calc_water_fluxes cf m petcrop petsoil = Inr (cf', m')"
  shows "(\<forall>i. Suc i < numlayers m' \<longrightarrow> outflux (pf m' ! i) = influx (pf m' ! Suc i))
       \<and> (\<exists>cur out0.
            update_heads_k (last (layers m)) = Inr cur
          \<and> (if has_watertable m then watertable_influx cur = Inr out0 else out0 = k cur)
          \<and> outflux (pf m' ! (numlayers m' - 1))
              = bound_outflux cur (influx (pf m' ! (numlayers m' - 1))) out0)"
proof -
  from calc_water_fluxes_D [OF assms(1)] obtain rz ws m3 where
    2: "reduce_et (m\<lparr>prz := rz\<rparr>) = Inr ws" and
    3: "influx_loop [0..<numlayers m] 0
              (m\<lparr>prz := rz, waterstresses := ws,
                 aet := \<lparr>crop = crop ws * petcrop, soil = soil ws * petsoil\<rparr>\<rparr>) = Inr m3" and
    n3: "numlayers m3 = numlayers m" and
    4: "netflux_loop [0..<numlayers m] (cf, m3) = Inr (cf', m')"
    by blast
  have n': "numlayers m' = numlayers m"
    using calc_water_fluxes_frame(6) [OF assms] by (simp add: numlayers_def)
  have ne: "layers m \<noteq> []" using reduce_et_layers [OF 2] by simp
  then have pos: "0 < numlayers m" by (simp add: numlayers_def)
  have last: "last (layers m) = layers m ! (numlayers m - 1)"
    using ne by (simp add: last_conv_nth numlayers_def)
  have w: "has_watertable m3 = has_watertable m"
    using influx_loop_frame [OF 3, of 0] by simp
  have "update_heads_k (layers m ! (numlayers m - 1)) = Inr (layers m3 ! (numlayers m - 1))"
    using influx_loop_updated [OF 3, of "numlayers m - 1"] pos by simp
  then have u: "update_heads_k (last (layers m)) = Inr (layers m3 ! (numlayers m - 1))"
    using last by simp
  from netflux_loop_last [OF 4 n3 [symmetric] pos] obtain out0 where
    "if has_watertable m then watertable_influx (layers m3 ! (numlayers m - 1)) = Inr out0
     else out0 = k (layers m3 ! (numlayers m - 1))"
    "outflux (pf m' ! (numlayers m - 1))
       = bound_outflux (layers m3 ! (numlayers m - 1)) (influx (pf m' ! (numlayers m - 1))) out0"
    unfolding w by blast
  with u have b: "\<exists>cur out0.
            update_heads_k (last (layers m)) = Inr cur
          \<and> (if has_watertable m then watertable_influx cur = Inr out0 else out0 = k cur)
          \<and> outflux (pf m' ! (numlayers m' - 1))
              = bound_outflux cur (influx (pf m' ! (numlayers m' - 1))) out0"
    unfolding n' by blast
  have "\<forall>i. Suc i < numlayers m' \<longrightarrow> outflux (pf m' ! i) = influx (pf m' ! Suc i)"
    using netflux_loop_continuity [OF 4 n3 [symmetric]] unfolding n' by simp
  with b show ?thesis by blast
qed

theorem flux_continuity_witness:
  "calc_water_fluxes [Fluxes_zero, Fluxes_zero] example_model 3 2
     = Inr (fst example_step, snd example_step)
   \<and> outflux (pf (snd example_step) ! 0) = influx (pf (snd example_step) ! 1)"
proof -
  have "Suc 0 < numlayers (snd example_step)"
    using example_step_layers by (simp add: numlayers_def)
  then have "outflux (pf (snd example_step) ! 0) = influx (pf (snd example_step) ! Suc 0)"
    using flux_continuity [OF example_step_eq, THEN conjunct1] by blast
  then show ?thesis using example_step_eq by simp
qed

section \<open>Idempotence and positivity of the conductivity update\<close>




lemma example_updated_eq: "update_heads_k example_layer = Inr example_updated"
proof -
  have "good_layer example_layer"
    using example_model_ready example_model_layers
    by (simp add: ready_def list_all_length example_layer_def)
  then have "\<exists>l. update_heads_k example_layer = Inr l"
    by (intro update_heads_k_returns) (simp_all add: good_layer_def)
  then show ?thesis unfolding example_updated_def by (rule projr_eq)
qed

text \<open>
  C9. The head and conductivity update is idempotent: applied to its own result it
  returns that result again. It writes only the matric head, the gravity head and the
  conductivity, and what it writes depends only on the water content, the soil water
  characteristics, the depth and the saturated conductivity of the layer.
\<close>

theorem update_heads_k_idempotent:
  assumes "update_heads_k self = Inr l"
  shows "update_heads_k l = Inr l
       \<and> l = self\<lparr>matric := matric l, gravity := gravity l, k := k l\<rparr>
       \<and> (\<forall>other. vwc other = vwc self \<and> swc other = swc self \<and> depth other = depth self
                   \<and> ksat other = ksat self \<longrightarrow>
            update_heads_k other
              = Inr (other\<lparr>matric := matric l, gravity := gravity l, k := k l\<rparr>))"
proof -
  have fr: "l = self\<lparr>matric := matric l, gravity := gravity l, k := k l\<rparr>"
    using assms by (rule update_heads_k_frame)
  have "vwc self = vwc l" "swc self = swc l" "depth self = depth l" "ksat self = ksat l"
    by (subst fr, simp)+
  from update_heads_k_reads [OF this assms]
  have "update_heads_k l = Inr (l\<lparr>matric := matric l, gravity := gravity l, k := k l\<rparr>)" .
  then have "update_heads_k l = Inr l" by simp
  moreover have "\<forall>other. vwc other = vwc self \<and> swc other = swc self \<and> depth other = depth self
                   \<and> ksat other = ksat self \<longrightarrow>
            update_heads_k other
              = Inr (other\<lparr>matric := matric l, gravity := gravity l, k := k l\<rparr>)"
    using update_heads_k_reads [OF _ _ _ _ assms] by metis
  ultimately show ?thesis using fr by blast
qed

theorem update_heads_k_idempotent_witness:
  "update_heads_k example_layer = Inr example_updated
   \<and> update_heads_k example_updated = Inr example_updated"
  using update_heads_k_idempotent [OF example_updated_eq] example_updated_eq by blast



section \<open>The special codes of the initial water content\<close>

lemma example_coded_eq:
  "initialize_layer 0 None
     (read_layer \<lparr>ini_thick = 0.7, ini_vwc = - 1.5, ini_texture = loam\<rparr>)
   = Inr (fst example_coded, snd example_coded)"
  unfolding example_coded_def
  by (rule projr_pair_eq,
      insert initialize_layer_returns [OF initializable_loam(2) [of "7 / 10"], of 0 None])
     auto

text \<open>
  C6. A negative input water content is replaced at initialization: \<open>-1\<close> gives
  saturation, \<open>-2\<close> field capacity, \<open>-3\<close> the wilting point; a value in \<open>[-2, -1]\<close>
  interpolates linearly between saturation and field capacity, a value in \<open>(-3, -2]\<close>
  between field capacity and wilting point, and any other negative value gives field
  capacity. The water content in mm follows. With saturation 0.45 and field capacity 0.30
  the code \<open>-1.5\<close> gives 0.375.
\<close>

theorem special_code_initialization:
  assumes "initialize_layer accdepth prv self = Inr (l, acc')" and "vwc self < 0"
  shows "vwc l = special_code (swc l) (- vwc self)
       \<and> (vwc self = - 1 \<longrightarrow> vwc l = sat (swc l))
       \<and> (vwc self = - 2 \<longrightarrow> vwc l = fc (swc l))
       \<and> (vwc self = - 3 \<longrightarrow> vwc l = pwp (swc l))
       \<and> (- 2 \<le> vwc self \<and> vwc self \<le> - 1 \<longrightarrow>
            vwc l = sat (swc l) - (- vwc self - 1) * (sat (swc l) - fc (swc l)))
       \<and> (- 3 < vwc self \<and> vwc self \<le> - 2 \<longrightarrow>
            vwc l = fc (swc l) - (- vwc self - 2) * (fc (swc l) - pwp (swc l)))
       \<and> (vwc self < - 3 \<or> - 1 < vwc self \<longrightarrow> vwc l = fc (swc l))
       \<and> wc l = vwc l * thick l * 1000
       \<and> special_code \<lparr>sat = 0.45, fc = 0.30, pwp = p, psd = b, porosity = 0.45,
                         airentry = ae\<rparr> 1.5 = 0.375"
proof -
  note d = initialize_layer_D(4,15,16) [OF assms(1)]
  have v: "vwc l = special_code (swc l) (- vwc self)" using d(2) assms(2) by simp
  have w: "wc l = vwc l * thick l * 1000" using d(1,3) assms(2) by simp
  have e: "special_code \<lparr>sat = 0.45, fc = 0.30, pwp = p, psd = b, porosity = 0.45,
                         airentry = ae\<rparr> 1.5 = 0.375"
    by (simp add: special_code_def)
  have c1: "vwc self = - 1 \<longrightarrow> vwc l = sat (swc l)"
    unfolding v special_code_def by simp
  have c2: "vwc self = - 2 \<longrightarrow> vwc l = fc (swc l)"
    unfolding v special_code_def by simp
  have c3: "vwc self = - 3 \<longrightarrow> vwc l = pwp (swc l)"
    unfolding v special_code_def by simp
  have c4: "- 2 \<le> vwc self \<and> vwc self \<le> - 1 \<longrightarrow>
            vwc l = sat (swc l) - (- vwc self - 1) * (sat (swc l) - fc (swc l))"
    unfolding v special_code_def by simp
  have c5: "- 3 < vwc self \<and> vwc self \<le> - 2 \<longrightarrow>
            vwc l = fc (swc l) - (- vwc self - 2) * (fc (swc l) - pwp (swc l))"
  proof (cases "vwc self = - 2")
    case True
    then show ?thesis using c2 by simp
  next
    case False
    then show ?thesis unfolding v special_code_def by simp
  qed
  have c6: "vwc self < - 3 \<or> - 1 < vwc self \<longrightarrow> vwc l = fc (swc l)"
    unfolding v special_code_def by auto
  show ?thesis using v w e c1 c2 c3 c4 c5 c6 by blast
qed

theorem special_code_initialization_witness:
  "initialize_layer 0 None
     (read_layer \<lparr>ini_thick = 0.7, ini_vwc = - 1.5, ini_texture = loam\<rparr>)
   = Inr (fst example_coded, snd example_coded)
   \<and> vwc (read_layer \<lparr>ini_thick = 0.7, ini_vwc = - 1.5, ini_texture = loam\<rparr>) < 0
   \<and> vwc (fst example_coded)
       = sat (swc (fst example_coded))
         - 0.5 * (sat (swc (fst example_coded)) - fc (swc (fst example_coded)))"
proof -
  have neg: "vwc (read_layer \<lparr>ini_thick = 0.7, ini_vwc = - 1.5, ini_texture = loam\<rparr>) < 0"
    by (simp add: read_layer_def SoilLayer_new_def)
  have val: "vwc (read_layer \<lparr>ini_thick = 0.7, ini_vwc = - 1.5, ini_texture = loam\<rparr>) = - 1.5"
    by (simp add: read_layer_def SoilLayer_new_def)
  have "- 2 \<le> - (1.5::real) \<and> - (1.5::real) \<le> - 1 \<longrightarrow>
        vwc (fst example_coded)
          = sat (swc (fst example_coded))
            - (- (- 1.5) - 1) * (sat (swc (fst example_coded)) - fc (swc (fst example_coded)))"
    using special_code_initialization [OF example_coded_eq neg, of 0 0 0]
    unfolding val by blast
  then have "vwc (fst example_coded)
       = sat (swc (fst example_coded))
         - 0.5 * (sat (swc (fst example_coded)) - fc (swc (fst example_coded)))"
    by simp
  then show ?thesis using example_coded_eq neg by blast
qed

section \<open>Root growth\<close>

lemma sum_thick_static:
  assumes "map static_part xs = map static_part ys"
  shows "map thick xs = map thick ys"
proof (rule nth_equalityI)
  show "length (map thick xs) = length (map thick ys)"
    using assms by (metis length_map)
next
  fix j assume "j < length (map thick xs)"
  then have j: "j < length ys" "j < length xs" using assms by (metis length_map)+
  have "static_part (xs ! j) = static_part (ys ! j)"
    using nth_map_eq [OF assms j(1)] .
  then have "thick (xs ! j) = thick (ys ! j)" using static_part_fields by blast
  then show "map thick xs ! j = map thick ys ! j" using j by simp
qed

lemma example_day1_eq: "run_days example_model [(10, 2, 3, 2)] = Inr example_day1"
  unfolding example_day1_def
  using run_days_returns [OF example_model_ready] by (intro projr_eq) blast

lemma example_day1_ready: "ready example_day1"
  using run_days_returns [OF example_model_ready, of "[(10, 2, 3, 2)]"] example_day1_eq by auto

lemma example_day2_eq: "daily_water_balance example_day1 0 2 3 2 = Inr example_day2"
  unfolding example_day2_def
  using daily_water_balance_returns [OF example_day1_ready] by (intro projr_eq) blast

lemma deep_model_init:
  "SoilWater_init 0 ini_deep_root = Inr (deep_model, snd (projr (SoilWater_init 0 ini_deep_root)))"
  unfolding deep_model_def
  by (rule projr_pair_eq, insert SoilWater_init_returns [of ini_deep_root 0])
     (auto simp: ini_deep_root_def initializable_loam)

lemma deep_model_ready: "ready deep_model"
  by (rule SoilWater_init_ready [OF deep_model_init])
     (simp_all add: ini_deep_root_def initializable_loam)

lemma deep_day_eq: "daily_water_balance deep_model 10 2 3 2 = Inr deep_day"
  unfolding deep_day_def
  using daily_water_balance_returns [OF deep_model_ready] by (intro projr_eq) blast

text \<open>
  C8 (amended). On an object built by the constructor and advanced by any number of
  days, a daily step sets the root depth to the smaller of the old root depth plus 0.008
  and the sum of the layer thicknesses, which the step does not change. The new root
  depth is at most that sum; it is not below the old one when the old one is at most the
  sum, and it stays at the sum once there.
\<close>

theorem root_depth_step:
  assumes "SoilWater_init accdepth ini = Inr (m0, acc')"
    and "run_days m0 days = Inr m"
    and "daily_water_balance m rain lai petcrop petsoil = Inr m'"
  shows "rootdepth m' = min (rootdepth m + 0.008) (sum_list (map thick (layers m)))
       \<and> map thick (layers m') = map thick (layers m)
       \<and> rootdepth m' \<le> sum_list (map thick (layers m'))
       \<and> (rootdepth m \<le> sum_list (map thick (layers m)) \<longrightarrow> rootdepth m \<le> rootdepth m')
       \<and> (rootdepth m = sum_list (map thick (layers m)) \<longrightarrow> rootdepth m' = rootdepth m)"
proof -
  note i = SoilWater_init_D(3) [OF assms(1)] SoilWater_init_thick(3) [OF assms(1)]
  have s: "map static_part (layers m) = map static_part (layers m0)"
    using run_days_frame [OF assms(2)] by simp
  have "accthick (last (layers m)) = accthick (last (layers m0))"
    using static_part_last [OF s i(1)] static_part_fields by blast
  also have "\<dots> = sum_list (map thick (layers m))"
    using i(2) sum_thick_static [OF s] by simp
  finally have cap: "accthick (last (layers m)) = sum_list (map thick (layers m))" .
  note f = daily_water_balance_frame [OF assms(3)]
  have r: "rootdepth m' = min (rootdepth m + 0.008) (sum_list (map thick (layers m)))"
    using f(2) cap by simp
  have t: "map thick (layers m') = map thick (layers m)"
    using sum_thick_static [OF f(6)] .
  show ?thesis unfolding t using r by auto
qed

theorem root_depth_step_witness:
  "SoilWater_init 0 ini_example
     = Inr (example_model, snd (projr (SoilWater_init 0 ini_example)))
   \<and> run_days example_model [(10, 2, 3, 2)] = Inr example_day1
   \<and> daily_water_balance example_day1 0 2 3 2 = Inr example_day2
   \<and> rootdepth example_day1 \<le> sum_list (map thick (layers example_day1))
   \<and> rootdepth example_day2
       = min (rootdepth example_day1 + 0.008) (sum_list (map thick (layers example_day1)))
   \<and> rootdepth example_day1 \<le> rootdepth example_day2"
proof -
  have d1: "daily_water_balance example_model 10 2 3 2 = Inr example_day1"
    using example_day1_eq by (auto simp: andthen_eq_Inr)
  have e: "run_days example_model [] = Inr example_model" by simp
  have 1: "rootdepth example_day1 \<le> sum_list (map thick (layers example_day1))"
    using root_depth_step [OF example_model_init e d1] by blast
  note 2 = root_depth_step [OF example_model_init example_day1_eq example_day2_eq]
  show ?thesis
    using 1 2 example_model_init example_day1_eq example_day2_eq by blast
qed

theorem root_depth_counterexample:
  "SoilWater_init 0 ini_deep_root
     = Inr (deep_model, snd (projr (SoilWater_init 0 ini_deep_root)))
   \<and> daily_water_balance deep_model 10 2 3 2 = Inr deep_day
   \<and> rootdepth deep_day < rootdepth deep_model"
proof -
  have t: "sum_list (map thick (layers deep_model)) = 1"
    using SoilWater_init_thick(2) [OF deep_model_init] by (simp add: ini_deep_root_def)
  have a: "accthick (last (layers deep_model)) = 1"
    using SoilWater_init_thick(3) [OF deep_model_init] t by simp
  have r: "rootdepth deep_model = 2"
    using SoilWater_init_D(5) [OF deep_model_init] by (simp add: ini_deep_root_def)
  have "rootdepth deep_day = 1"
    using daily_water_balance_frame(2) [OF deep_day_eq] a r by simp
  then show ?thesis using r deep_model_init deep_day_eq by simp
qed

section \<open>What the constructor checks\<close>

lemma malformed_model_init:
  "SoilWater_init 0 ini_malformed
     = Inr (malformed_model, snd (projr (SoilWater_init 0 ini_malformed)))"
  unfolding malformed_model_def
  by (rule projr_pair_eq, insert SoilWater_init_returns [of ini_malformed 0])
     (auto simp: ini_malformed_def initializable_loam)

text \<open>
  C2 (amended). A payload whose declared layer count exceeds the number of layer records
  makes the constructor fail, with the IndexError of reading the missing record. When the
  constructor returns, the declared count is positive and at most the number of records,
  the object has that many layers, and their thicknesses are those of the first records
  as given: further records are ignored and no thickness is checked.
\<close>

theorem constructor_layer_count:
  "(int (length (ini_layers ini)) < ini_numlayers ini \<longrightarrow>
      SoilWater_init accdepth ini = Inl IndexError)
   \<and> (SoilWater_init accdepth ini = Inr (m, acc') \<longrightarrow>
        0 < ini_numlayers ini \<and> ini_numlayers ini \<le> int (length (ini_layers ini))
        \<and> length (layers m) = nat (ini_numlayers ini)
        \<and> map thick (layers m)
            = map ini_thick (take (nat (ini_numlayers ini)) (ini_layers ini)))"
proof (intro conjI impI)
  assume "int (length (ini_layers ini)) < ini_numlayers ini"
  then show "SoilWater_init accdepth ini = Inl IndexError"
    by (rule SoilWater_init_IndexError)
next
  assume a: "SoilWater_init accdepth ini = Inr (m, acc')"
  note d = SoilWater_init_D(1,3) [OF a] and t = SoilWater_init_thick(1,2) [OF a]
  show "length (layers m) = nat (ini_numlayers ini)" by (rule t(1))
  show "map thick (layers m)
            = map ini_thick (take (nat (ini_numlayers ini)) (ini_layers ini))" by (rule t(2))
  have "0 < length (layers m)" using d(2) by simp
  then show pos: "0 < ini_numlayers ini" unfolding t(1) by simp
  show "ini_numlayers ini \<le> int (length (ini_layers ini))" using d(1) pos by simp
qed

theorem constructor_layer_count_witness:
  "int (length (ini_layers ini_missing_record)) < ini_numlayers ini_missing_record
   \<and> SoilWater_init 0 ini_missing_record = Inl IndexError
   \<and> SoilWater_init 0 ini_malformed
       = Inr (malformed_model, snd (projr (SoilWater_init 0 ini_malformed)))
   \<and> map thick (layers malformed_model) = [0]"
proof -
  have 1: "int (length (ini_layers ini_missing_record)) < ini_numlayers ini_missing_record"
    by (simp add: ini_missing_record_def ini_example_def)
  have 2: "SoilWater_init 0 ini_missing_record = Inl IndexError"
    using constructor_layer_count [of ini_missing_record 0, THEN conjunct1] 1 by blast
  have "map thick (layers malformed_model)
          = map ini_thick (take (nat (ini_numlayers ini_malformed)) (ini_layers ini_malformed))"
    using constructor_layer_count [of ini_malformed 0 malformed_model, THEN conjunct2]
      malformed_model_init by blast
  then have 3: "map thick (layers malformed_model) = [0]"
    by (simp add: ini_malformed_def)
  show ?thesis using 1 2 3 malformed_model_init by blast
qed

theorem constructor_counterexample:
  "ini_numlayers ini_malformed \<noteq> int (length (ini_layers ini_malformed))
   \<and> ini_thick (ini_layers ini_malformed ! 0) \<le> 0
   \<and> SoilWater_init 0 ini_malformed
       = Inr (malformed_model, snd (projr (SoilWater_init 0 ini_malformed)))"
  using malformed_model_init by (simp add: ini_malformed_def)

section \<open>The water table under a saturated layer\<close>

lemma airentry_of_nonneg: "0 \<le> airentry_of s c awc"
  by (simp add: airentry_of_def Let_def)

lemma update_heads_k_saturated:
  assumes "vwc self = sat (swc self)" "fc (swc self) < sat (swc self)"
    "0 \<le> airentry (swc self)" "sat (swc self) \<noteq> 0"
  shows "update_heads_k self
           = Inr (self\<lparr>matric := airentry (swc self) / 10, gravity := depth self,
                       k := ksat self\<rparr>)"
proof -
  have d: "sat (swc self) - fc (swc self) \<noteq> 0" using assms(2) by simp
  have "matric_head self = Inr (airentry (swc self) / 10)"
    using assms(1,2) d by (simp add: matric_head_def)
  moreover have "max 0 (airentry (swc self) / 10) = airentry (swc self) / 10"
    using assms(3) by simp
  moreover have "unsat_k self (airentry (swc self) / 10) = Inr (ksat self)"
    using assms(4) by (simp add: unsat_k_def)
  ultimately show ?thesis by (simp add: update_heads_k_def)
qed

lemma watertable_influx_saturated:
  assumes "0 < ksat l" "k l = ksat l"
  shows "watertable_influx l = Inl ZeroDivisionError"
  using assms by (simp add: watertable_influx_def)

text \<open>One sub-interval on an object with a water table under a single saturated layer.\<close>

lemma calc_water_fluxes_saturated:
  assumes "layers m = [l]" "has_watertable m" "length (pf m) = 1" "rootdepth m \<noteq> 0"
    and "vwc l = sat (swc l)" "fc (swc l) < sat (swc l)" "0 \<le> airentry (swc l)"
    and "0 < sat (swc l)" "0 < ksat l"
  shows "calc_water_fluxes cf m petcrop petsoil = Inl ZeroDivisionError"
proof -
  obtain rz where 1: "rootzone_water m = Inr rz"
    using rootzone_water_returns [OF assms(4)] by blast
  have "\<exists>ws. reduce_et (m\<lparr>prz := rz\<rparr>) = Inr ws"
    using assms(1,5,8) by (intro reduce_et_returns) simp_all
  then obtain ws where 2: "reduce_et (m\<lparr>prz := rz\<rparr>) = Inr ws" by blast
  define m2 where "m2 = m\<lparr>prz := rz, waterstresses := ws,
                 aet := \<lparr>crop = crop ws * petcrop, soil = soil ws * petsoil\<rparr>\<rparr>"
  define cur where "cur = l\<lparr>matric := airentry (swc l) / 10, gravity := depth l, k := ksat l\<rparr>"
  have u: "update_heads_k l = Inr cur"
    unfolding cur_def using assms(5,6,7,8) by (intro update_heads_k_saturated) simp_all
  have "\<exists>q m3. influx_step 0 0 m2 = Inr (q, m3) \<and> layers m3 = [cur]
                \<and> has_watertable m3 \<and> length (pf m3) = 1"
    using assms(1,2,3,4) u by (simp add: influx_step_def Let_def m2_def)
  then obtain q m3 where
    s: "influx_step 0 0 m2 = Inr (q, m3)" and l3: "layers m3 = [cur]" and
    w3: "has_watertable m3" and p3: "length (pf m3) = 1"
    by blast
  have 3: "influx_loop [0..<numlayers m2] 0 m2 = Inr m3"
    using s assms(1) by (simp add: numlayers_def m2_def)
  have "watertable_influx cur = Inl ZeroDivisionError"
    using assms(9) by (intro watertable_influx_saturated) (simp_all add: cur_def)
  then have "raw_outflux 0 m3 = Inl ZeroDivisionError"
    using l3 w3 by (simp add: raw_outflux_def numlayers_def influx_from_watertable_def
        last_layer_def)
  then have "netflux_step 0 (cf, m3) = Inl ZeroDivisionError"
    using l3 p3 by (simp add: netflux_step_def)
  then have 4: "netflux_loop [0..<numlayers m3] (cf, m3) = Inl ZeroDivisionError"
    using l3 by (simp add: numlayers_def)
  show ?thesis
    using 1 2 3 4
    by (simp add: calc_water_fluxes_def Let_def actual_et_def m2_def)
qed

lemma subinterval_loop_fails:
  assumes "calc_water_fluxes cf m petcrop petsoil = Inl err" "0 < n"
  shows "subinterval_loop n (cf, m) petcrop petsoil = Inl err"
  using assms by (cases n) simp_all

lemma watertable_model_init:
  "SoilWater_init 0 ini_watertable
     = Inr (watertable_model, snd (projr (SoilWater_init 0 ini_watertable)))"
  unfolding watertable_model_def
  by (rule projr_pair_eq, insert SoilWater_init_returns [of ini_watertable 0])
     (auto simp: ini_watertable_def initializable_loam)

text \<open>
  C3, at the failing input. The constructor accepts the payload of one saturated loam
  layer (water content code \<open>-1\<close>) above a water table, and the first sub-interval of the
  first day raises ZeroDivisionError: the layer's conductivity equals its saturated
  conductivity, and \<open>_influx_from_watertable\<close> divides by the difference of their
  logarithms, without the guard that the logarithmic mean of pass 1 has.
\<close>

theorem watertable_division_by_zero:
  "SoilWater_init 0 ini_watertable
     = Inr (watertable_model, snd (projr (SoilWater_init 0 ini_watertable)))
   \<and> daily_water_balance watertable_model 10 2 3 2 = Inl ZeroDivisionError"
proof -
  note d = SoilWater_init_D [OF watertable_model_init]
  from d(2) obtain l a1 where
    i: "initialize_layer 0 None
          (read_layer \<lparr>ini_thick = 1, ini_vwc = - 1, ini_texture = loam\<rparr>) = Inr (l, a1)" and
    ls: "layers watertable_model = [l]"
    by (auto simp: ini_watertable_def andthen_eq_Inr)
  note il = initialize_layer_D [OF i]
  have g: "0 < sat (swc l)" "0 < ksat l"
    using SoilWater_init_returns [of ini_watertable 0] watertable_model_init
    by (auto simp: ini_watertable_def initializable_loam ls)
  have v: "vwc l = sat (swc l)"
    using il(15) by (simp add: read_layer_def SoilLayer_new_def special_code_def)
  have f: "fc (swc l) < sat (swc l)"
    unfolding il(9,10)
    by (simp add: read_layer_def SoilLayer_new_def loam_def loam_theta)
  have a: "0 \<le> airentry (swc l)"
    unfolding il(14) by (rule airentry_of_nonneg)
  have acc: "accthick (last (layers watertable_model)) = 1"
    using il(6) by (simp add: ls read_layer_def SoilLayer_new_def)
  have rd: "rootdepth watertable_model = 0.2" "numintervals watertable_model = 4"
    "has_watertable watertable_model"
    using d(4,5,6) by (simp_all add: ini_watertable_def)
  define m1 where "m1 = watertable_model\<lparr>netrain := net_rainfall 10 2, rootdepth := 0.208\<rparr>"
  have c: "calc_water_fluxes [Fluxes_zero] m1 3 2 = Inl ZeroDivisionError"
    using ls rd d(7) v f a g
    by (intro calc_water_fluxes_saturated [of m1 l]) (simp_all add: m1_def)
  have r: "rooting_depth (watertable_model\<lparr>netrain := net_rainfall 10 2\<rparr>) = Inr 0.208"
    using ls acc rd(1) by (simp add: rooting_depth_def last_layer_def)
  have n: "0 < nat (numintervals watertable_model)" using rd(2) by simp
  have "subinterval_loop (nat (numintervals watertable_model)) ([Fluxes_zero], m1) 3 2
          = Inl ZeroDivisionError"
    using subinterval_loop_fails [OF c n] .
  then have "daily_water_balance watertable_model 10 2 3 2 = Inl ZeroDivisionError"
    unfolding daily_water_balance_def r andthen_Inr Let_def
    using ls by (simp add: numlayers_def m1_def)
  then show ?thesis using watertable_model_init by blast
qed

section \<open>The order of the soil water characteristics\<close>










end
